theory Spec2Isabelle
  imports Complex_Main
begin

section \<open>Exceptions and results\<close>

text \<open>
  The module \<^verbatim>\<open>modeling_siglip.py\<close> is Python on top of a tensor library. Every
  exception the interpreter or the library can raise on the paths studied here is a
  value; a computation returns \<open>Inl\<close> of the exception or \<open>Inr\<close> of its value.
\<close>

datatype pyerror =
    NameError string
  | TypeError string
  | ValueError string
  | IndexError string
  | RuntimeError string
  | ZeroDivisionError
  | NotImplementedError string

type_synonym 'a result = "pyerror + 'a"

text \<open>Sequencing of two statements: the second runs only if the first did not raise.\<close>

definition andThen :: "'a result \<Rightarrow> ('a \<Rightarrow> 'b result) \<Rightarrow> 'b result" where
  "andThen m f = (case m of Inl e \<Rightarrow> Inl e | Inr x \<Rightarrow> f x)"

text \<open>Python's \<^verbatim>\<open>a // b\<close> on integers: floor division, raising on a zero divisor.\<close>

definition floordiv :: "int \<Rightarrow> int \<Rightarrow> int result" where
  "floordiv a b = (if b = 0 then Inl ZeroDivisionError else Inr (a div b))"

section \<open>Tensors\<close>

text \<open>
  A tensor is a shape and its elements in row-major order, as a contiguous tensor of
  the library is. The element type is a parameter: the library's floating-point
  numbers are not modelled, only that they can be added and multiplied.
\<close>

record 'a tensor =
  shape :: "nat list"
  data :: "'a list"

definition wf_tensor :: "'a tensor \<Rightarrow> bool" where
  "wf_tensor t = (length (data t) = prod_list (shape t))"

text \<open>All the multi-indices of a shape, in row-major order.\<close>

fun indices :: "nat list \<Rightarrow> nat list list" where
  "indices [] = [[]]"
| "indices (n # ns) = concat (map (\<lambda>i. map ((#) i) (indices ns)) [0..<n])"

text \<open>The position of a multi-index in the row-major order.\<close>

fun offset :: "nat list \<Rightarrow> nat list \<Rightarrow> nat" where
  "offset (n # ns) (i # is) = i * prod_list ns + offset ns is"
| "offset _ _ = 0"

fun in_range :: "nat list \<Rightarrow> nat list \<Rightarrow> bool" where
  "in_range [] [] = True"
| "in_range (n # ns) (i # is) = (i < n \<and> in_range ns is)"
| "in_range _ _ = False"

definition tget :: "'a tensor \<Rightarrow> nat list \<Rightarrow> 'a" where
  "tget t idx = data t ! offset (shape t) idx"

text \<open>
  \<^verbatim>\<open>Tensor.flatten(start_dim)\<close>: the dimensions from \<open>start_dim\<close> on are merged into
  one; the elements keep their order. A start beyond the last dimension raises.
\<close>

definition flatten :: "nat \<Rightarrow> 'a tensor \<Rightarrow> 'a tensor result" where
  "flatten start_dim t =
     (if start_dim < length (shape t)
      then Inr \<lparr>shape = take start_dim (shape t) @ [prod_list (drop start_dim (shape t))],
                data = data t\<rparr>
      else Inl (IndexError ''Dimension out of range''))"

text \<open>\<^verbatim>\<open>Tensor.transpose(dim0, dim1)\<close>: the two dimensions are exchanged.\<close>

definition swap :: "nat \<Rightarrow> nat \<Rightarrow> 'b list \<Rightarrow> 'b list" where
  "swap d0 d1 xs = xs[d0 := xs ! d1, d1 := xs ! d0]"

definition transpose_dims :: "nat \<Rightarrow> nat \<Rightarrow> 'a tensor \<Rightarrow> 'a tensor result" where
  "transpose_dims d0 d1 t =
     (if d0 < length (shape t) \<and> d1 < length (shape t)
      then Inr \<lparr>shape = swap d0 d1 (shape t),
                data = map (\<lambda>idx. tget t (swap d0 d1 idx)) (indices (swap d0 d1 (shape t)))\<rparr>
      else Inl (IndexError ''Dimension out of range''))"

text \<open>
  Broadcasting, the library's rule for an elementwise operation on two shapes: the
  shapes are aligned at their last dimension, a missing dimension counts as 1, and two
  sizes are compatible when they are equal or one of them is 1.
\<close>

definition broadcast_dim :: "nat \<Rightarrow> nat \<Rightarrow> nat result" where
  "broadcast_dim m n =
     (if m = n then Inr m
      else if m = 1 then Inr n
      else if n = 1 then Inr m
      else Inl (RuntimeError ''The size of tensor a must match the size of tensor b''))"

fun broadcast_aligned :: "nat list \<Rightarrow> nat list \<Rightarrow> nat list result" where
  "broadcast_aligned (m # ms) (n # ns) =
     andThen (broadcast_dim m n) (\<lambda>d. andThen (broadcast_aligned ms ns) (\<lambda>ds. Inr (d # ds)))"
| "broadcast_aligned _ _ = Inr []"

definition pad_shape :: "nat \<Rightarrow> nat list \<Rightarrow> nat list" where
  "pad_shape r sh = replicate (r - length sh) 1 @ sh"

definition broadcast_shapes :: "nat list \<Rightarrow> nat list \<Rightarrow> nat list result" where
  "broadcast_shapes a b =
     (let r = max (length a) (length b) in broadcast_aligned (pad_shape r a) (pad_shape r b))"

text \<open>
  The element of \<open>t\<close> that position \<open>idx\<close> of the broadcast shape reads: leading
  dimensions that \<open>t\<close> does not have are dropped, and a dimension of size 1 is read at 0.
\<close>

definition source_index :: "nat list \<Rightarrow> nat list \<Rightarrow> nat list" where
  "source_index sh idx =
     map2 (\<lambda>n i. if n = 1 then 0 else i) sh (drop (length idx - length sh) idx)"

definition expand_to :: "nat list \<Rightarrow> 'a tensor \<Rightarrow> 'a tensor" where
  "expand_to sh t =
     \<lparr>shape = sh, data = map (\<lambda>idx. tget t (source_index (shape t) idx)) (indices sh)\<rparr>"

text \<open>\<^verbatim>\<open>a + b\<close> on tensors.\<close>

definition tensor_add :: "'a::plus tensor \<Rightarrow> 'a tensor \<Rightarrow> 'a tensor result" where
  "tensor_add a b =
     andThen (broadcast_shapes (shape a) (shape b))
       (\<lambda>sh. Inr \<lparr>shape = sh,
                   data = map2 (+) (data (expand_to sh a)) (data (expand_to sh b))\<rparr>)"

text \<open>
  Creating a tensor of given sizes. The library keeps a size in 64 bits, so a size
  outside that range raises when it is read; no size may be negative; and the elements
  must fit in the memory of the machine, given here by \<open>capacity\<close>, the largest number
  of elements that can be allocated.
\<close>

definition int64_min :: int where
  "int64_min = - 9223372036854775808"

definition int64_max :: int where
  "int64_max = 9223372036854775807"

definition allocate :: "int \<Rightarrow> int list \<Rightarrow> nat list result" where
  "allocate capacity sizes =
     (if list_ex (\<lambda>s. s < int64_min \<or> int64_max < s) sizes
      then Inl (RuntimeError ''Overflow when unpacking long'')
      else if list_ex (\<lambda>s. s < 0) sizes
      then Inl (RuntimeError ''Trying to create tensor with negative dimension'')
      else if capacity < prod_list sizes
      then Inl (RuntimeError ''not enough memory'')
      else Inr (map nat sizes))"

text \<open>\<^verbatim>\<open>torch.arange(end)\<close> for an integer \<open>end\<close>: the integers \<open>0, ..., end - 1\<close>.\<close>

definition arange :: "int \<Rightarrow> int \<Rightarrow> int tensor result" where
  "arange capacity n =
     (if n < int64_min \<or> int64_max < n
      then Inl (RuntimeError ''Overflow when unpacking long'')
      else if n < 0
      then Inl (RuntimeError ''upper bound and lower bound inconsistent with step sign'')
      else andThen (allocate capacity [n])
             (\<lambda>sh. Inr \<lparr>shape = sh, data = map int [0..<nat n]\<rparr>))"

text \<open>
  \<^verbatim>\<open>Tensor.expand(sizes)\<close>: \<open>-1\<close> keeps the size of an existing dimension; an existing
  dimension changes size only from 1; new dimensions are added in front.
\<close>

definition expand_dim :: "int \<Rightarrow> nat option \<Rightarrow> nat result" where
  "expand_dim s d =
     (case d of
        None \<Rightarrow>
          (if s < 0
           then Inl (RuntimeError ''expanded size -1 is not allowed in a leading, non-existing dimension'')
           else Inr (nat s))
      | Some m \<Rightarrow>
          (if s = -1 then Inr m
           else if s < 0 then Inl (RuntimeError ''invalid expanded size'')
           else if nat s = m \<or> m = 1 then Inr (nat s)
           else Inl (RuntimeError ''The expanded size of the tensor must match the existing size'')))"

fun expand_dims :: "int list \<Rightarrow> nat option list \<Rightarrow> nat list result" where
  "expand_dims (s # ss) (d # ds) =
     andThen (expand_dim s d) (\<lambda>n. andThen (expand_dims ss ds) (\<lambda>ns. Inr (n # ns)))"
| "expand_dims _ _ = Inr []"

definition expand :: "int list \<Rightarrow> 'a tensor \<Rightarrow> 'a tensor result" where
  "expand sizes t =
     (if length sizes < length (shape t)
      then Inl (RuntimeError ''the number of sizes provided must be greater or equal to the number of dimensions in the tensor'')
      else andThen
             (expand_dims sizes
                (replicate (length sizes - length (shape t)) None @ map Some (shape t)))
             (\<lambda>sh. Inr (expand_to sh t)))"

section \<open>The interpreter: names, calls, classes\<close>

text \<open>
  The names bound at module level once \<^verbatim>\<open>modeling_siglip.py\<close> has been executed: the
  names its import statements bind, then one name for each class statement, in the
  order of the file.
\<close>

definition imported_names :: "string list" where
  "imported_names = [''torch'', ''nn'', ''Optional'', ''Tuple'']"

definition class_names :: "string list" where
  "class_names =
     [''SiglipVisionConfig'', ''SiglipVisionEmbeddings'', ''SiglipMLP'',
      ''SiglipEncoderLayer'', ''SiglipVisionTransformer'', ''SiglipVisionModel'']"

definition module_globals :: "string list" where
  "module_globals = imported_names @ class_names"

text \<open>The builtins the file refers to.\<close>

definition builtins_used :: "string list" where
  "builtins_used = [''super'', ''int'']"

text \<open>
  Reading a global name inside a function body happens when the body runs: the module
  namespace is searched, then the builtins, and a name in neither raises.
\<close>

definition load_global :: "string \<Rightarrow> unit result" where
  "load_global name =
     (if name \<in> set module_globals \<or> name \<in> set builtins_used then Inr ()
      else Inl (NameError (''name '' @ name @ '' is not defined'')))"

text \<open>
  \<^verbatim>\<open>super().__init__()\<close>, the first statement of every constructor: it reads the
  builtin \<^verbatim>\<open>super\<close>, and the constructor of the base class, called without
  arguments, returns.
\<close>

definition super_init :: "unit result" where
  "super_init = load_global ''super''"

text \<open>
  Binding the arguments of a call to the parameters of a \<^verbatim>\<open>def\<close> that has neither
  defaults nor starred parameters (\<open>self\<close> left out): positional arguments fill the
  parameters in order, then each keyword must name a parameter that is still free,
  then no positional argument may be left over and no parameter unbound.
\<close>

fun bind_keywords ::
  "string list \<Rightarrow> (string \<times> 'v) list \<Rightarrow> (string \<times> 'v) list \<Rightarrow> (string \<times> 'v) list result" where
  "bind_keywords params bound [] = Inr bound"
| "bind_keywords params bound ((k, v) # kws) =
     (if k \<notin> set params
      then Inl (TypeError (''forward() got an unexpected keyword argument '' @ k))
      else if k \<in> set (map fst bound)
      then Inl (TypeError (''forward() got multiple values for argument '' @ k))
      else bind_keywords params (bound @ [(k, v)]) kws)"

definition bind_args ::
  "string list \<Rightarrow> 'v list \<Rightarrow> (string \<times> 'v) list \<Rightarrow> (string \<times> 'v) list result" where
  "bind_args params args kwargs =
     andThen (bind_keywords params (zip params args) kwargs)
       (\<lambda>bound.
          if length params < length args
          then Inl (TypeError ''forward() takes fewer positional arguments than were given'')
          else if list_all (\<lambda>p. p \<in> set (map fst bound)) params then Inr bound
          else Inl (TypeError ''forward() missing a required positional argument''))"

definition argument :: "(string \<times> 'v) list \<Rightarrow> string \<Rightarrow> 'v result" where
  "argument bound name =
     (case map_of bound name of
        Some v \<Rightarrow> Inr v
      | None \<Rightarrow> Inl (TypeError ''forward() missing a required positional argument''))"

text \<open>
  Calling an instance of a subclass of \<^verbatim>\<open>nn.Module\<close> runs \<^verbatim>\<open>nn.Module.__call__\<close>,
  which calls the attribute \<^verbatim>\<open>forward\<close> with the same arguments. The attribute is
  searched in the namespace of the instance's class, given here as the list of the
  functions its class statement defines; a class that defines none inherits
  \<^verbatim>\<open>nn.Module.forward\<close>. That one is \<^verbatim>\<open>_forward_unimplemented(self, *input)\<close>: it
  takes any positional arguments and no keyword, so a call with a keyword raises when
  the arguments are bound, and any other call raises in its body.
\<close>

type_synonym ('v, 'r) callable = "'v list \<Rightarrow> (string \<times> 'v) list \<Rightarrow> 'r result"

definition forward_unimplemented :: "string \<Rightarrow> ('v, 'r) callable" where
  "forward_unimplemented cls args kwargs =
     (case kwargs of
        [] \<Rightarrow>
          Inl (NotImplementedError
                 (''Module ['' @ cls @ ''] is missing the required forward function''))
      | (k, v) # rest \<Rightarrow>
          Inl (TypeError (''_forward_unimplemented() got an unexpected keyword argument '' @ k)))"

definition Module_call ::
  "string \<Rightarrow> (string \<times> ('v, 'r) callable) list \<Rightarrow> ('v, 'r) callable" where
  "Module_call cls namespace args kwargs =
     (case map_of namespace ''forward'' of
        Some forward \<Rightarrow> forward args kwargs
      | None \<Rightarrow> forward_unimplemented cls args kwargs)"

section \<open>The layers of the library\<close>

text \<open>
  The numeric kernels of the library that the claims say nothing about (linear
  projection, layer normalisation, GELU), the random values it draws for new
  parameters, and the number of elements the machine can allocate for a tensor, are
  parameters of the model. A layer is then what calling it computes.
\<close>

type_synonym 'a layer = "'a tensor \<Rightarrow> 'a tensor result"

record 'a nn =
  nn_Linear :: "int \<Rightarrow> int \<Rightarrow> 'a layer result"
  nn_LayerNorm :: "int \<Rightarrow> 'a \<Rightarrow> 'a layer result"
  nn_gelu :: "'a tensor \<Rightarrow> string \<Rightarrow> 'a tensor result"
  nn_init :: "nat \<Rightarrow> 'a"
  nn_capacity :: int

text \<open>A new parameter tensor of a given shape, filled with the library's initial values.\<close>

definition new_parameter :: "'a nn \<Rightarrow> int list \<Rightarrow> 'a tensor result" where
  "new_parameter nn sizes =
     andThen (allocate (nn_capacity nn) sizes)
       (\<lambda>sh. Inr \<lparr>shape = sh, data = map (nn_init nn) [0..<prod_list sh]\<rparr>)"

subsection \<open>Embedding table\<close>

record 'a Embedding =
  num_embeddings :: int
  embedding_dim :: int
  weight :: "'a tensor"

text \<open>\<^verbatim>\<open>nn.Embedding(num_embeddings, embedding_dim)\<close>\<close>

definition nn_Embedding :: "'a nn \<Rightarrow> int \<Rightarrow> int \<Rightarrow> 'a Embedding result" where
  "nn_Embedding nn n d =
     andThen (new_parameter nn [n, d])
       (\<lambda>w. Inr \<lparr>num_embeddings = n, embedding_dim = d, weight = w\<rparr>)"

text \<open>
  Calling the table on a tensor of indices: each index selects its row, and an index
  outside \<open>0, ..., num_embeddings - 1\<close> raises.
\<close>

definition embedding_row :: "'a Embedding \<Rightarrow> int \<Rightarrow> 'a list" where
  "embedding_row emb i =
     take (nat (embedding_dim emb)) (drop (nat i * nat (embedding_dim emb)) (data (weight emb)))"

definition Embedding_forward :: "'a Embedding \<Rightarrow> int tensor \<Rightarrow> 'a tensor result" where
  "Embedding_forward emb ids =
     (if list_all (\<lambda>i. 0 \<le> i \<and> i < num_embeddings emb) (data ids)
      then Inr \<lparr>shape = shape ids @ [nat (embedding_dim emb)],
                data = concat (map (embedding_row emb) (data ids))\<rparr>
      else Inl (IndexError ''index out of range in self''))"

subsection \<open>Convolution without padding\<close>

record 'a Conv2d =
  in_channels :: int
  out_channels :: int
  kernel_size :: int
  stride :: int
  padding :: string
  conv_weight :: "'a tensor"
  conv_bias :: "'a tensor"

text \<open>
  \<^verbatim>\<open>nn.Conv2d(in_channels, out_channels, kernel_size, stride, padding)\<close> for the
  padding modes given by name. The weight has one square kernel for each pair of an
  output and an input channel.
\<close>

definition nn_Conv2d ::
  "'a nn \<Rightarrow> int \<Rightarrow> int \<Rightarrow> int \<Rightarrow> int \<Rightarrow> string \<Rightarrow> 'a Conv2d result" where
  "nn_Conv2d nn cin cout k s pad =
     (if pad \<noteq> ''valid'' \<and> pad \<noteq> ''same''
      then Inl (ValueError ''Invalid padding string'')
      else if pad = ''same'' \<and> s \<noteq> 1
      then Inl (ValueError ''padding=same is not supported for strided convolutions'')
      else andThen (new_parameter nn [cout, cin, k, k])
             (\<lambda>w. andThen (new_parameter nn [cout])
                (\<lambda>b. Inr \<lparr>in_channels = cin, out_channels = cout, kernel_size = k,
                           stride = s, padding = pad, conv_weight = w, conv_bias = b\<rparr>)))"

text \<open>
  The pixels that output position \<open>(i, j)\<close> reads: the square of side \<open>k\<close> whose corner
  is at \<open>(i * s, j * s)\<close>, each pixel with its place \<open>(u, v)\<close> in the kernel.
\<close>

definition conv_window :: "nat \<Rightarrow> nat \<Rightarrow> nat \<Rightarrow> nat \<Rightarrow> (nat \<times> nat) list" where
  "conv_window k s i j = List.product (map (\<lambda>u. i * s + u) [0..<k]) (map (\<lambda>v. j * s + v) [0..<k])"

text \<open>
  One output element: the bias of the output channel plus, for each input channel and
  each pixel of the window, the pixel times its kernel weight.
\<close>

definition conv_element ::
  "'a::{plus,times} Conv2d \<Rightarrow> 'a tensor \<Rightarrow> nat list \<Rightarrow> 'a" where
  "conv_element conv x idx =
     (let b = idx ! 0; oc = idx ! 1; i = idx ! 2; j = idx ! 3;
          k = nat (kernel_size conv); s = nat (stride conv)
      in foldl (+) (tget (conv_bias conv) [oc])
           (concat (map (\<lambda>c. map (\<lambda>(r, q). tget (conv_weight conv) [oc, c, r - i * s, q - j * s]
                                            * tget x [b, c, r, q])
                                 (conv_window k s i j))
                        [0..<nat (in_channels conv)])))"

text \<open>
  Calling the layer with \<^verbatim>\<open>padding="valid"\<close> on a batch of images. The other padding
  mode pads the input first and is not used by the module.
\<close>

definition Conv2d_forward :: "'a::{plus,times} Conv2d \<Rightarrow> 'a layer" where
  "Conv2d_forward conv x =
     (case shape x of
        [b, c, h, w] \<Rightarrow>
          (if padding conv \<noteq> ''valid''
           then Inl (NotImplementedError ''padding mode not modelled'')
           else if int c \<noteq> in_channels conv
           then Inl (RuntimeError ''input has the wrong number of channels'')
           else if stride conv \<le> 0
           then Inl (RuntimeError ''non-positive stride is not supported'')
           else if int h < kernel_size conv \<or> int w < kernel_size conv
           then Inl (RuntimeError ''Kernel size can not be greater than actual input size'')
           else
             (let k = nat (kernel_size conv); s = nat (stride conv);
                  sh = [b, nat (out_channels conv), (h - k) div s + 1, (w - k) div s + 1]
              in Inr \<lparr>shape = sh, data = map (conv_element conv x) (indices sh)\<rparr>))
      | _ \<Rightarrow> Inl (RuntimeError ''Expected 4D input to conv2d''))"

section \<open>The module\<close>

subsection \<open>SiglipVisionConfig\<close>

record 'a SiglipVisionConfig =
  hidden_size :: int
  intermediate_size :: int
  num_hidden_layers :: int
  num_attention_heads :: int
  num_channels :: int
  image_size :: int
  patch_size :: int
  layer_norm_eps :: 'a
  attention_dropout :: 'a
  num_image_tokens :: "int option"

text \<open>The configuration that \<^verbatim>\<open>SiglipVisionConfig()\<close> builds from its defaults.\<close>

definition default_config :: "real SiglipVisionConfig" where
  "default_config =
     \<lparr>hidden_size = 768, intermediate_size = 3072, num_hidden_layers = 12,
      num_attention_heads = 12, num_channels = 3, image_size = 224, patch_size = 16,
      layer_norm_eps = 1 / 1000000, attention_dropout = 0, num_image_tokens = None\<rparr>"

subsection \<open>SiglipVisionEmbeddings\<close>

record 'a SiglipVisionEmbeddings =
  emb_config :: "'a SiglipVisionConfig"
  emb_embed_dim :: int
  emb_image_size :: int
  emb_patch_size :: int
  patch_embedding :: "'a Conv2d"
  num_patches :: int
  num_positions :: int
  position_embedding :: "'a Embedding"
  position_ids :: "int tensor"

definition SiglipVisionEmbeddings_init ::
  "'a nn \<Rightarrow> 'a SiglipVisionConfig \<Rightarrow> 'a SiglipVisionEmbeddings result" where
  "SiglipVisionEmbeddings_init nn config =
     andThen super_init
       (\<lambda>_.
      let embed_dim = hidden_size config;
          image_size = image_size config;
          patch_size = patch_size config
      in andThen (nn_Conv2d nn (num_channels config) embed_dim patch_size patch_size ''valid'')
        (\<lambda>patch_embedding.
      andThen (floordiv image_size patch_size)
        (\<lambda>q.
      let num_patches = q ^ 2;
          num_positions = num_patches
      in andThen (nn_Embedding nn num_positions embed_dim)
        (\<lambda>position_embedding.
      andThen (arange (nn_capacity nn) num_positions)
        (\<lambda>r.
      andThen (expand [1, -1] r)
        (\<lambda>position_ids.
      Inr \<lparr>emb_config = config, emb_embed_dim = embed_dim, emb_image_size = image_size,
           emb_patch_size = patch_size, patch_embedding = patch_embedding,
           num_patches = num_patches, num_positions = num_positions,
           position_embedding = position_embedding, position_ids = position_ids\<rparr>))))))"

definition SiglipVisionEmbeddings_forward ::
  "'a::{plus,times} SiglipVisionEmbeddings \<Rightarrow> 'a layer" where
  "SiglipVisionEmbeddings_forward self pixel_values =
     (case shape pixel_values of
        [_, _, height, width] \<Rightarrow>
          andThen (Conv2d_forward (patch_embedding self) pixel_values)
            (\<lambda>patch_embed.
          andThen (flatten 2 patch_embed)
            (\<lambda>embeddings.
          andThen (transpose_dims 1 2 embeddings)
            (\<lambda>embeddings.
          andThen (Embedding_forward (position_embedding self) (position_ids self))
            (\<lambda>positions.
          tensor_add embeddings positions))))
      | sh \<Rightarrow>
          (if length sh < 4 then Inl (ValueError ''not enough values to unpack (expected 4)'')
           else Inl (ValueError ''too many values to unpack (expected 4)'')))"

text \<open>The class statement defines \<^verbatim>\<open>__init__\<close> and \<^verbatim>\<open>forward\<close>.\<close>

definition SiglipVisionEmbeddings_namespace ::
  "'a::{plus,times} SiglipVisionEmbeddings \<Rightarrow> (string \<times> ('a tensor, 'a tensor) callable) list" where
  "SiglipVisionEmbeddings_namespace self =
     [(''forward'', \<lambda>args kwargs.
         andThen (bind_args [''pixel_values''] args kwargs)
           (\<lambda>bound. andThen (argument bound ''pixel_values'')
              (SiglipVisionEmbeddings_forward self)))]"

definition SiglipVisionEmbeddings_call ::
  "'a::{plus,times} SiglipVisionEmbeddings \<Rightarrow> ('a tensor, 'a tensor) callable" where
  "SiglipVisionEmbeddings_call self =
     Module_call ''SiglipVisionEmbeddings'' (SiglipVisionEmbeddings_namespace self)"

text \<open>
  The pixels of an image that the patch embedding of an instance reads for the patch in
  row \<open>i\<close> and column \<open>j\<close> of the grid, and two batches of images having the same
  values at those pixels, in image \<open>b\<close> and in each of \<open>C\<close> channels.
\<close>

definition patch_pixels :: "'a SiglipVisionEmbeddings \<Rightarrow> nat \<Rightarrow> nat \<Rightarrow> (nat \<times> nat) list" where
  "patch_pixels self i j =
     conv_window (nat (kernel_size (patch_embedding self))) (nat (stride (patch_embedding self))) i j"

definition same_patch ::
  "'a SiglipVisionEmbeddings \<Rightarrow> nat \<Rightarrow> nat \<Rightarrow> 'a tensor \<Rightarrow> 'a tensor \<Rightarrow> nat \<Rightarrow> nat \<Rightarrow> bool" where
  "same_patch self b C x y i j =
     list_all (\<lambda>c. list_all (\<lambda>(r, q). tget x [b, c, r, q] = tget y [b, c, r, q])
                         (patch_pixels self i j))
              [0..<C]"

subsection \<open>SiglipMLP\<close>

record 'a SiglipMLP =
  mlp_config :: "'a SiglipVisionConfig"
  fc1 :: "'a layer"
  fc2 :: "'a layer"

definition SiglipMLP_init :: "'a nn \<Rightarrow> 'a SiglipVisionConfig \<Rightarrow> 'a SiglipMLP result" where
  "SiglipMLP_init nn config =
     andThen super_init
       (\<lambda>_.
     andThen (nn_Linear nn (hidden_size config) (intermediate_size config))
       (\<lambda>fc1.
     andThen (nn_Linear nn (intermediate_size config) (hidden_size config))
       (\<lambda>fc2.
     Inr \<lparr>mlp_config = config, fc1 = fc1, fc2 = fc2\<rparr>)))"

definition SiglipMLP_forward :: "'a nn \<Rightarrow> 'a SiglipMLP \<Rightarrow> 'a layer" where
  "SiglipMLP_forward nn self hidden_states =
     andThen (fc1 self hidden_states)
       (\<lambda>hidden_states.
     andThen (nn_gelu nn hidden_states ''tanh'')
       (\<lambda>hidden_states.
     andThen (fc2 self hidden_states)
       (\<lambda>hidden_states.
     Inr hidden_states)))"

definition SiglipMLP_namespace ::
  "'a nn \<Rightarrow> 'a SiglipMLP \<Rightarrow> (string \<times> ('a tensor, 'a tensor) callable) list" where
  "SiglipMLP_namespace nn self =
     [(''forward'', \<lambda>args kwargs.
         andThen (bind_args [''hidden_states''] args kwargs)
           (\<lambda>bound. andThen (argument bound ''hidden_states'') (SiglipMLP_forward nn self)))]"

definition SiglipMLP_call :: "'a nn \<Rightarrow> 'a SiglipMLP \<Rightarrow> ('a tensor, 'a tensor) callable" where
  "SiglipMLP_call nn self = Module_call ''SiglipMLP'' (SiglipMLP_namespace nn self)"

subsection \<open>SiglipEncoderLayer\<close>

text \<open>
  The file refers to two classes, \<^verbatim>\<open>SiglipAttention\<close> and \<^verbatim>\<open>SiglipEncoder\<close>, that it does
  not contain. What an instance of either computes is a parameter: a callable taking
  positional and keyword arguments. The attention's result is unpacked into two values
  by its caller, so it is a pair.
\<close>

type_synonym 'a attention = "('a tensor, 'a tensor \<times> 'a tensor option) callable"

record 'a SiglipEncoderLayer =
  layer_config :: "'a SiglipVisionConfig"
  layer_embed_dim :: int
  self_attention :: "'a attention"
  layer_norm1 :: "'a layer"
  mlp :: "'a SiglipMLP"
  layer_norm2 :: "'a layer"

text \<open>
  The constructor. Its argument \<open>SiglipAttention\<close> is what calling that name would do
  if the name were bound; it is reached only after the name has been read.
\<close>

definition SiglipEncoderLayer_init ::
  "'a nn \<Rightarrow> ('a SiglipVisionConfig \<Rightarrow> 'a attention result) \<Rightarrow> 'a SiglipVisionConfig
     \<Rightarrow> 'a SiglipEncoderLayer result" where
  "SiglipEncoderLayer_init nn SiglipAttention config =
     andThen super_init
       (\<lambda>_.
      let embed_dim = hidden_size config
      in andThen (load_global ''SiglipAttention'')
        (\<lambda>_.
      andThen (SiglipAttention config)
        (\<lambda>self_attention.
      andThen (nn_LayerNorm nn embed_dim (layer_norm_eps config))
        (\<lambda>layer_norm1.
      andThen (load_global ''SiglipMLP'')
        (\<lambda>_.
      andThen (SiglipMLP_init nn config)
        (\<lambda>mlp.
      andThen (nn_LayerNorm nn embed_dim (layer_norm_eps config))
        (\<lambda>layer_norm2.
      Inr \<lparr>layer_config = config, layer_embed_dim = embed_dim,
           self_attention = self_attention, layer_norm1 = layer_norm1, mlp = mlp,
           layer_norm2 = layer_norm2\<rparr>)))))))"

definition SiglipEncoderLayer_forward ::
  "'a::plus nn \<Rightarrow> 'a SiglipEncoderLayer \<Rightarrow> 'a layer" where
  "SiglipEncoderLayer_forward nn self hidden_states =
     (let residual = hidden_states
      in andThen (layer_norm1 self hidden_states)
        (\<lambda>hidden_states.
      andThen (self_attention self [] [(''hidden_states'', hidden_states)])
        (\<lambda>(hidden_states, _).
      andThen (tensor_add residual hidden_states)
        (\<lambda>hidden_states.
      let residual = hidden_states
      in andThen (layer_norm2 self hidden_states)
        (\<lambda>hidden_states.
      andThen (SiglipMLP_call nn (mlp self) [hidden_states] [])
        (\<lambda>hidden_states.
      andThen (tensor_add residual hidden_states)
        (\<lambda>hidden_states.
      Inr hidden_states)))))))"

subsection \<open>SiglipVisionTransformer\<close>

record 'a SiglipVisionTransformer =
  vt_config :: "'a SiglipVisionConfig"
  embeddings :: "'a SiglipVisionEmbeddings"
  encoder :: "('a tensor, 'a tensor) callable"
  post_layernorm :: "'a layer"

definition SiglipVisionTransformer_init ::
  "'a nn \<Rightarrow> ('a SiglipVisionConfig \<Rightarrow> ('a tensor, 'a tensor) callable result)
     \<Rightarrow> 'a SiglipVisionConfig \<Rightarrow> 'a SiglipVisionTransformer result" where
  "SiglipVisionTransformer_init nn SiglipEncoder config =
     andThen super_init
       (\<lambda>_.
      let embed_dim = hidden_size config
      in andThen (load_global ''SiglipVisionEmbeddings'')
        (\<lambda>_.
      andThen (SiglipVisionEmbeddings_init nn config)
        (\<lambda>embeddings.
      andThen (load_global ''SiglipEncoder'')
        (\<lambda>_.
      andThen (SiglipEncoder config)
        (\<lambda>encoder.
      andThen (nn_LayerNorm nn embed_dim (layer_norm_eps config))
        (\<lambda>post_layernorm.
      Inr \<lparr>vt_config = config, embeddings = embeddings, encoder = encoder,
           post_layernorm = post_layernorm\<rparr>))))))"

definition SiglipVisionTransformer_forward ::
  "'a::{plus,times} SiglipVisionTransformer \<Rightarrow> 'a layer" where
  "SiglipVisionTransformer_forward self pixel_values =
     andThen (SiglipVisionEmbeddings_call (embeddings self) [pixel_values] [])
       (\<lambda>hidden_states.
     andThen (SiglipVisionEmbeddings_call (embeddings self) [] [(''input_embeds'', hidden_states)])
       (\<lambda>last_hidden_state.
     andThen (post_layernorm self last_hidden_state)
       (\<lambda>last_hidden_state.
     Inr last_hidden_state)))"

definition SiglipVisionTransformer_namespace ::
  "'a::{plus,times} SiglipVisionTransformer \<Rightarrow> (string \<times> ('a tensor, 'a tensor) callable) list" where
  "SiglipVisionTransformer_namespace self =
     [(''forward'', \<lambda>args kwargs.
         andThen (bind_args [''pixel_values''] args kwargs)
           (\<lambda>bound. andThen (argument bound ''pixel_values'')
              (SiglipVisionTransformer_forward self)))]"

definition SiglipVisionTransformer_call ::
  "'a::{plus,times} SiglipVisionTransformer \<Rightarrow> ('a tensor, 'a tensor) callable" where
  "SiglipVisionTransformer_call self =
     Module_call ''SiglipVisionTransformer'' (SiglipVisionTransformer_namespace self)"

subsection \<open>SiglipVisionModel\<close>

record 'a SiglipVisionModel =
  vm_config :: "'a SiglipVisionConfig"
  vision_model :: "'a SiglipVisionTransformer"

definition SiglipVisionModel_init ::
  "'a nn \<Rightarrow> ('a SiglipVisionConfig \<Rightarrow> ('a tensor, 'a tensor) callable result)
     \<Rightarrow> 'a SiglipVisionConfig \<Rightarrow> 'a SiglipVisionModel result" where
  "SiglipVisionModel_init nn SiglipEncoder config =
     andThen super_init
       (\<lambda>_.
     andThen (load_global ''SiglipVisionTransformer'')
       (\<lambda>_.
     andThen (SiglipVisionTransformer_init nn SiglipEncoder config)
       (\<lambda>vision_model.
     Inr \<lparr>vm_config = config, vision_model = vision_model\<rparr>)))"

definition SiglipVisionModel_forwrd ::
  "'a::{plus,times} SiglipVisionModel \<Rightarrow> 'a layer" where
  "SiglipVisionModel_forwrd self pixel_values =
     SiglipVisionTransformer_call (vision_model self) [] [(''pixel_values'', pixel_values)]"

text \<open>The class statement defines \<^verbatim>\<open>__init__\<close> and \<^verbatim>\<open>forwrd\<close>.\<close>

definition SiglipVisionModel_namespace ::
  "'a::{plus,times} SiglipVisionModel \<Rightarrow> (string \<times> ('a tensor, 'a tensor) callable) list" where
  "SiglipVisionModel_namespace self =
     [(''forwrd'', \<lambda>args kwargs.
         andThen (bind_args [''pixel_values''] args kwargs)
           (\<lambda>bound. andThen (argument bound ''pixel_values'') (SiglipVisionModel_forwrd self)))]"

definition SiglipVisionModel_call ::
  "'a::{plus,times} SiglipVisionModel \<Rightarrow> ('a tensor, 'a tensor) callable" where
  "SiglipVisionModel_call self =
     Module_call ''SiglipVisionModel'' (SiglipVisionModel_namespace self)"

section \<open>The architecture in the specification's words\<close>

text \<open>
  The specification describes the encoder as a linear composition of layers. Layers in
  sequence: each is applied to the result of the one before, and the first exception
  ends the sequence.
\<close>

fun sequential :: "'a layer list \<Rightarrow> 'a layer" where
  "sequential [] x = Inr x"
| "sequential (l # ls) x = andThen (l x) (sequential ls)"

text \<open>A residual connection around a block: the block's input is added to its output.\<close>

definition residual_add :: "'a::plus layer \<Rightarrow> 'a layer" where
  "residual_add block x = andThen (block x) (\<lambda>y. tensor_add x y)"

text \<open>
  The attention sub-block as a layer: it is called with the keyword \<^verbatim>\<open>hidden_states\<close>,
  and the first of the two values it returns is its output.
\<close>

definition attention_output :: "'a attention \<Rightarrow> 'a layer" where
  "attention_output attn h = andThen (attn [] [(''hidden_states'', h)]) (\<lambda>(y, weights). Inr y)"

section \<open>A small instance for evaluation\<close>

text \<open>
  An instance of the library's parameters over the reals, used to run the model on
  concrete inputs: the \<open>k\<close>-th initial value of a parameter tensor is \<open>k + 1\<close>, a
  tensor has room for 16777216 elements, a
  linear layer sums its input features into every output feature, and normalisation
  and GELU return their input.
\<close>

definition example_Linear :: "int \<Rightarrow> int \<Rightarrow> real layer result" where
  "example_Linear fin fout =
     (if fin < 0 \<or> fout < 0 then Inl (RuntimeError ''Trying to create tensor with negative dimension'')
      else Inr (\<lambda>x.
        if shape x = [] \<or> int (last (shape x)) \<noteq> fin
        then Inl (RuntimeError ''mat1 and mat2 shapes cannot be multiplied'')
        else
          (let sh = butlast (shape x) @ [nat fout]
           in Inr \<lparr>shape = sh,
                   data = map (\<lambda>idx. sum_list (map (\<lambda>k. tget x (butlast idx @ [k])) [0..<nat fin]))
                              (indices sh)\<rparr>)))"

definition example_LayerNorm :: "int \<Rightarrow> real \<Rightarrow> real layer result" where
  "example_LayerNorm n eps =
     (if n < 0 then Inl (RuntimeError ''Trying to create tensor with negative dimension'')
      else Inr (\<lambda>x.
        if shape x = [] \<or> int (last (shape x)) \<noteq> n
        then Inl (RuntimeError ''Given normalized_shape does not match the input'')
        else Inr x))"

definition example_nn :: "real nn" where
  "example_nn =
     \<lparr>nn_Linear = example_Linear, nn_LayerNorm = example_LayerNorm,
      nn_gelu = (\<lambda>x approximate. Inr x), nn_init = (\<lambda>k. real k + 1),
      nn_capacity = 16777216\<rparr>"

text \<open>
  A configuration for images of 2 by 2 pixels with one channel, cut into four patches
  of one pixel, embedded in two dimensions; and what the constructor of the embeddings
  builds from it.
\<close>

definition small_config :: "real SiglipVisionConfig" where
  "small_config =
     \<lparr>hidden_size = 2, intermediate_size = 3, num_hidden_layers = 1,
      num_attention_heads = 1, num_channels = 1, image_size = 2, patch_size = 1,
      layer_norm_eps = 1 / 1000000, attention_dropout = 0, num_image_tokens = None\<rparr>"

definition small_embeddings :: "real SiglipVisionEmbeddings" where
  "small_embeddings =
     \<lparr>emb_config = small_config, emb_embed_dim = 2, emb_image_size = 2, emb_patch_size = 1,
      patch_embedding =
        \<lparr>in_channels = 1, out_channels = 2, kernel_size = 1, stride = 1, padding = ''valid'',
         conv_weight = \<lparr>shape = [2, 1, 1, 1], data = [1, 2]\<rparr>,
         conv_bias = \<lparr>shape = [2], data = [1, 2]\<rparr>\<rparr>,
      num_patches = 4, num_positions = 4,
      position_embedding =
        \<lparr>num_embeddings = 4, embedding_dim = 2,
         weight = \<lparr>shape = [4, 2], data = [1, 2, 3, 4, 5, 6, 7, 8]\<rparr>\<rparr>,
      position_ids = \<lparr>shape = [1, 4], data = [0, 1, 2, 3]\<rparr>\<rparr>"

text \<open>An image of the configured size, and an input that is not a batch of images.\<close>

definition small_image :: "real tensor" where
  "small_image = \<lparr>shape = [1, 1, 2, 2], data = [10, 20, 30, 40]\<rparr>"

definition unbatched_image :: "real tensor" where
  "unbatched_image = \<lparr>shape = [1, 2, 2], data = [10, 20, 30, 40]\<rparr>"

text \<open>
  A configuration with a single position, and an image twice as wide as it
  configures: two patches for one position.
\<close>

definition one_patch_config :: "real SiglipVisionConfig" where
  "one_patch_config = small_config\<lparr>hidden_size := 1, image_size := 1\<rparr>"

definition one_patch_embeddings :: "real SiglipVisionEmbeddings" where
  "one_patch_embeddings =
     \<lparr>emb_config = one_patch_config, emb_embed_dim = 1, emb_image_size = 1, emb_patch_size = 1,
      patch_embedding =
        \<lparr>in_channels = 1, out_channels = 1, kernel_size = 1, stride = 1, padding = ''valid'',
         conv_weight = \<lparr>shape = [1, 1, 1, 1], data = [1]\<rparr>,
         conv_bias = \<lparr>shape = [1], data = [1]\<rparr>\<rparr>,
      num_patches = 1, num_positions = 1,
      position_embedding =
        \<lparr>num_embeddings = 1, embedding_dim = 1, weight = \<lparr>shape = [1, 1], data = [1]\<rparr>\<rparr>,
      position_ids = \<lparr>shape = [1, 1], data = [0]\<rparr>\<rparr>"

definition wide_image :: "real tensor" where
  "wide_image = \<lparr>shape = [1, 1, 1, 2], data = [10, 20]\<rparr>"

text \<open>
  A configuration for images of 4 by 4 pixels with one channel, cut into four patches
  of 2 by 2 pixels, embedded in one dimension; what the constructor of the embeddings
  builds from it; an image; and a second image that differs from it outside the first
  patch only.
\<close>

definition grid_config :: "real SiglipVisionConfig" where
  "grid_config = small_config\<lparr>hidden_size := 1, image_size := 4, patch_size := 2\<rparr>"

definition grid_embeddings :: "real SiglipVisionEmbeddings" where
  "grid_embeddings =
     \<lparr>emb_config = grid_config, emb_embed_dim = 1, emb_image_size = 4, emb_patch_size = 2,
      patch_embedding =
        \<lparr>in_channels = 1, out_channels = 1, kernel_size = 2, stride = 2, padding = ''valid'',
         conv_weight = \<lparr>shape = [1, 1, 2, 2], data = [1, 2, 3, 4]\<rparr>,
         conv_bias = \<lparr>shape = [1], data = [1]\<rparr>\<rparr>,
      num_patches = 4, num_positions = 4,
      position_embedding =
        \<lparr>num_embeddings = 4, embedding_dim = 1,
         weight = \<lparr>shape = [4, 1], data = [1, 2, 3, 4]\<rparr>\<rparr>,
      position_ids = \<lparr>shape = [1, 4], data = [0, 1, 2, 3]\<rparr>\<rparr>"

definition grid_image :: "real tensor" where
  "grid_image =
     \<lparr>shape = [1, 1, 4, 4],
      data = [1, 2, 3, 4, 5, 6, 7, 8, 9, 10, 11, 12, 13, 14, 15, 16]\<rparr>"

definition grid_image_changed :: "real tensor" where
  "grid_image_changed =
     \<lparr>shape = [1, 1, 4, 4],
      data = [1, 2, 30, 40, 5, 6, 70, 80, 90, 100, 110, 120, 130, 140, 150, 160]\<rparr>"

text \<open>
  Instances of the two classes whose constructors cannot finish, assembled by hand: an
  attention and an encoder that return their input, around the layers of the instance.
\<close>

definition example_attention :: "real attention" where
  "example_attention args kwargs =
     andThen (bind_args [''hidden_states''] args kwargs)
       (\<lambda>bound. andThen (argument bound ''hidden_states'') (\<lambda>x. Inr (x, None)))"

definition example_encoder :: "(real tensor, real tensor) callable" where
  "example_encoder args kwargs =
     andThen (bind_args [''inputs_embeds''] args kwargs)
       (\<lambda>bound. argument bound ''inputs_embeds'')"

definition small_mlp :: "real SiglipMLP" where
  "small_mlp =
     \<lparr>mlp_config = small_config,
      fc1 = (case example_Linear 2 3 of Inr l \<Rightarrow> l | Inl e \<Rightarrow> (\<lambda>x. Inl e)),
      fc2 = (case example_Linear 3 2 of Inr l \<Rightarrow> l | Inl e \<Rightarrow> (\<lambda>x. Inl e))\<rparr>"

definition small_layer :: "real SiglipEncoderLayer" where
  "small_layer =
     \<lparr>layer_config = small_config, layer_embed_dim = 2, self_attention = example_attention,
      layer_norm1 = Inr, mlp = small_mlp, layer_norm2 = Inr\<rparr>"

definition small_transformer :: "real SiglipVisionTransformer" where
  "small_transformer =
     \<lparr>vt_config = small_config, embeddings = small_embeddings, encoder = example_encoder,
      post_layernorm = Inr\<rparr>"


section \<open>Sequencing\<close>

lemma andThen_simps [simp]: "andThen (Inl e) f = Inl e" "andThen (Inr x) f = f x"
  by (simp_all add: andThen_def)

lemma andThen_eq_Inr: "andThen m f = Inr y \<longleftrightarrow> (\<exists>x. m = Inr x \<and> f x = Inr y)"
  by (cases m) simp_all

section \<open>Names and calls\<close>

lemma load_SiglipAttention: "load_global ''SiglipAttention'' = Inl (NameError ''name SiglipAttention is not defined'')"
  by (simp add: load_global_def module_globals_def imported_names_def class_names_def builtins_used_def)

lemma load_SiglipEncoder: "load_global ''SiglipEncoder'' = Inl (NameError ''name SiglipEncoder is not defined'')"
  by (simp add: load_global_def module_globals_def imported_names_def class_names_def builtins_used_def)

lemma super_init_returns [simp]: "super_init = Inr ()"
  by (simp add: super_init_def load_global_def module_globals_def imported_names_def
        class_names_def builtins_used_def)

lemma load_defined:
  "load_global ''SiglipMLP'' = Inr ()"
  "load_global ''SiglipVisionEmbeddings'' = Inr ()"
  "load_global ''SiglipVisionTransformer'' = Inr ()"
  by (simp_all add: load_global_def module_globals_def imported_names_def class_names_def builtins_used_def)

lemma emb_call_pos: "SiglipVisionEmbeddings_call self [pv] [] = SiglipVisionEmbeddings_forward self pv"
  by (simp add: SiglipVisionEmbeddings_call_def SiglipVisionEmbeddings_namespace_def Module_call_def bind_args_def argument_def)

lemma emb_call_kw: "SiglipVisionEmbeddings_call self [] [(''input_embeds'', h)] = Inl (TypeError ''forward() got an unexpected keyword argument input_embeds'')"
  by (simp add: SiglipVisionEmbeddings_call_def SiglipVisionEmbeddings_namespace_def Module_call_def bind_args_def argument_def)

lemma mlp_call: "SiglipMLP_call nn self [x] [] = SiglipMLP_forward nn self x"
  by (simp add: SiglipMLP_call_def SiglipMLP_namespace_def Module_call_def bind_args_def argument_def)

section \<open>Indexing tensors\<close>

lemma length_concat_uniform:
  "(\<And>k. k < n \<Longrightarrow> length (g k) = m) \<Longrightarrow> length (concat (map g [0..<n])) = n * m"
  by (induction n) simp_all

lemma nth_concat_uniform:
  assumes "\<And>k. k < n \<Longrightarrow> length (g k) = m" and "i < n" and "j < m"
  shows "concat (map g [0..<n]) ! (i * m + j) = g i ! j"
  using assms
proof (induction n)
  case 0
  then show ?case by simp
next
  case (Suc n)
  have len: "length (concat (map g [0..<n])) = n * m"
    using Suc.prems(1) by (simp add: length_concat_uniform)
  show ?case
  proof (cases "i < n")
    case True
    then have "Suc i \<le> n" by simp
    then have "Suc i * m \<le> n * m" by (rule mult_le_mono1)
    with \<open>j < m\<close> have "i * m + j < n * m" by simp
    with True Suc len show ?thesis by (simp add: nth_append)
  next
    case False
    with \<open>i < Suc n\<close> have "i = n" by simp
    with len \<open>j < m\<close> show ?thesis by (simp add: nth_append)
  qed
qed

lemma length_indices: "length (indices sh) = prod_list sh"
  by (induction sh) (simp_all add: length_concat_uniform)

lemma offset_less: "in_range sh idx \<Longrightarrow> offset sh idx < prod_list sh"
proof (induction sh idx rule: in_range.induct)
  case (2 n ns i "is")
  then have a: "i < n" and b: "offset ns is < prod_list ns" by simp_all
  from a have "Suc i * prod_list ns \<le> n * prod_list ns" by (intro mult_le_mono1) simp
  with b show ?case by simp
qed simp_all

lemma indices_nth_offset: "in_range sh idx \<Longrightarrow> indices sh ! offset sh idx = idx"
proof (induction sh idx rule: in_range.induct)
  case (2 n ns i "is")
  then have a: "i < n" and r: "in_range ns is" by simp_all
  have b: "offset ns is < prod_list ns" using r by (rule offset_less)
  have "concat (map (\<lambda>i. map ((#) i) (indices ns)) [0..<n]) ! (i * prod_list ns + offset ns is)
        = map ((#) i) (indices ns) ! offset ns is"
    using a b by (intro nth_concat_uniform) (simp_all add: length_indices)
  with b 2 r show ?case by (simp add: length_indices)
qed simp_all

lemma tget_indices:
  "in_range sh idx \<Longrightarrow> tget \<lparr>shape = sh, data = map f (indices sh)\<rparr> idx = f idx"
  by (simp add: tget_def offset_less length_indices indices_nth_offset)

lemma indices_1d: "indices [n] = map (\<lambda>i. [i]) [0..<n]"
  by (simp add: comp_def)

lemma indices_row: "indices [1, n] = map (\<lambda>i. [0, i]) [0..<n]"
  by (simp add: comp_def)

lemma position_ids_data:
  "expand [1, -1] \<lparr>shape = [n], data = map int [0..<n]\<rparr> = Inr \<lparr>shape = [1, n], data = map int [0..<n]\<rparr>"
  by (auto simp add: expand_def expand_dim_def expand_to_def indices_row source_index_def tget_def comp_def)

section \<open>What the constructor of the embeddings builds\<close>

lemma allocate_Inr:
  "allocate capacity sizes = Inr sh \<longleftrightarrow>
     list_all (\<lambda>s. 0 \<le> s \<and> s \<le> int64_max) sizes \<and>
     prod_list sizes \<le> capacity \<and> sh = map nat sizes"
  by (auto simp add: allocate_def list_all_iff list_ex_iff not_less not_le int64_min_def)

lemma new_parameter_Inr:
  "new_parameter nn sizes = Inr w \<longleftrightarrow>
     list_all (\<lambda>s. 0 \<le> s \<and> s \<le> int64_max) sizes \<and>
     prod_list sizes \<le> nn_capacity nn \<and>
     w = \<lparr>shape = map nat sizes, data = map (nn_init nn) [0..<prod_list (map nat sizes)]\<rparr>"
  by (auto simp add: new_parameter_def andThen_eq_Inr allocate_Inr)

lemma arange_Inr:
  "arange capacity n = Inr r \<longleftrightarrow>
     0 \<le> n \<and> n \<le> int64_max \<and> n \<le> capacity \<and>
     r = \<lparr>shape = [nat n], data = map int [0..<nat n]\<rparr>"
  by (auto simp add: arange_def andThen_eq_Inr allocate_Inr int64_min_def)

lemma SiglipVisionEmbeddings_init_Inr:
  assumes "SiglipVisionEmbeddings_init nn cfg = Inr self"
  shows "0 \<le> hidden_size cfg \<and> 0 \<le> num_channels cfg \<and> 0 < patch_size cfg \<and>
     self =
       \<lparr>emb_config = cfg, emb_embed_dim = hidden_size cfg, emb_image_size = image_size cfg,
        emb_patch_size = patch_size cfg,
        patch_embedding =
          \<lparr>in_channels = num_channels cfg, out_channels = hidden_size cfg,
           kernel_size = patch_size cfg, stride = patch_size cfg, padding = ''valid'',
           conv_weight =
             \<lparr>shape = [nat (hidden_size cfg), nat (num_channels cfg), nat (patch_size cfg),
                       nat (patch_size cfg)],
              data = map (nn_init nn)
                [0..<nat (hidden_size cfg) * (nat (num_channels cfg) *
                        (nat (patch_size cfg) * nat (patch_size cfg)))]\<rparr>,
           conv_bias =
             \<lparr>shape = [nat (hidden_size cfg)],
              data = map (nn_init nn) [0..<nat (hidden_size cfg)]\<rparr>\<rparr>,
        num_patches = (image_size cfg div patch_size cfg) ^ 2,
        num_positions = (image_size cfg div patch_size cfg) ^ 2,
        position_embedding =
          \<lparr>num_embeddings = (image_size cfg div patch_size cfg) ^ 2,
           embedding_dim = hidden_size cfg,
           weight =
             \<lparr>shape = [nat ((image_size cfg div patch_size cfg) ^ 2), nat (hidden_size cfg)],
              data = map (nn_init nn)
                [0..<nat ((image_size cfg div patch_size cfg) ^ 2) * nat (hidden_size cfg)]\<rparr>\<rparr>,
        position_ids =
          \<lparr>shape = [1, nat ((image_size cfg div patch_size cfg) ^ 2)],
           data = map int [0..<nat ((image_size cfg div patch_size cfg) ^ 2)]\<rparr>\<rparr>"
proof -
  let ?P = "(image_size cfg div patch_size cfg) ^ 2"
  from assms obtain conv q emb r ids where
    conv: "nn_Conv2d nn (num_channels cfg) (hidden_size cfg) (patch_size cfg) (patch_size cfg) ''valid'' = Inr conv"
    and q: "floordiv (image_size cfg) (patch_size cfg) = Inr q"
    and emb: "nn_Embedding nn (q ^ 2) (hidden_size cfg) = Inr emb"
    and r: "arange (nn_capacity nn) (q ^ 2) = Inr r"
    and ids: "expand [1, -1] r = Inr ids"
    and self: "self = \<lparr>emb_config = cfg, emb_embed_dim = hidden_size cfg, emb_image_size = image_size cfg,
        emb_patch_size = patch_size cfg, patch_embedding = conv, num_patches = q ^ 2,
        num_positions = q ^ 2, position_embedding = emb, position_ids = ids\<rparr>"
    by (auto simp add: SiglipVisionEmbeddings_init_def Let_def andThen_eq_Inr)
  from q have nz: "patch_size cfg \<noteq> 0" and qd: "q = image_size cfg div patch_size cfg"
    by (auto simp add: floordiv_def split: if_splits)
  from conv have nonneg: "0 \<le> hidden_size cfg" "0 \<le> num_channels cfg" "0 \<le> patch_size cfg"
    and convd: "conv = \<lparr>in_channels = num_channels cfg, out_channels = hidden_size cfg,
           kernel_size = patch_size cfg, stride = patch_size cfg, padding = ''valid'',
           conv_weight =
             \<lparr>shape = [nat (hidden_size cfg), nat (num_channels cfg), nat (patch_size cfg),
                       nat (patch_size cfg)],
              data = map (nn_init nn)
                [0..<nat (hidden_size cfg) * (nat (num_channels cfg) *
                        (nat (patch_size cfg) * nat (patch_size cfg)))]\<rparr>,
           conv_bias =
             \<lparr>shape = [nat (hidden_size cfg)],
              data = map (nn_init nn) [0..<nat (hidden_size cfg)]\<rparr>\<rparr>"
    by (auto simp add: nn_Conv2d_def andThen_eq_Inr new_parameter_Inr)
  from emb have embd: "emb = \<lparr>num_embeddings = ?P, embedding_dim = hidden_size cfg,
           weight =
             \<lparr>shape = [nat ?P, nat (hidden_size cfg)],
              data = map (nn_init nn) [0..<nat ?P * nat (hidden_size cfg)]\<rparr>\<rparr>"
    by (auto simp add: nn_Embedding_def andThen_eq_Inr new_parameter_Inr qd)
  from r have rd: "r = \<lparr>shape = [nat ?P], data = map int [0..<nat ?P]\<rparr>"
    by (simp add: arange_Inr qd)
  from ids have idsd: "ids = \<lparr>shape = [1, nat ?P], data = map int [0..<nat ?P]\<rparr>"
    by (simp add: rd position_ids_data)
  show ?thesis using nz nonneg self convd embd idsd qd by simp
qed

section \<open>Reading tensors that operations build\<close>

lemma in_range_length: "in_range sh idx \<Longrightarrow> length idx = length sh"
  by (induction sh idx rule: in_range.induct) simp_all

lemma source_index_same: "in_range sh idx \<Longrightarrow> source_index sh idx = idx"
proof -
  have "in_range sh idx \<Longrightarrow> map2 (\<lambda>n i. if n = 1 then 0 else i) sh idx = idx"
    by (induction sh idx rule: in_range.induct) auto
  then show "in_range sh idx \<Longrightarrow> source_index sh idx = idx"
    by (simp add: source_index_def in_range_length)
qed

lemma tget_tensor_add:
  assumes "tensor_add a b = Inr r" and "in_range (shape r) idx"
  shows "tget r idx = tget a (source_index (shape a) idx) + tget b (source_index (shape b) idx)"
proof -
  from assms(1) obtain sh where
    r: "r = \<lparr>shape = sh, data = map2 (+) (data (expand_to sh a)) (data (expand_to sh b))\<rparr>"
    by (auto simp add: tensor_add_def andThen_eq_Inr)
  with assms(2) have i: "in_range sh idx" by simp
  then have o: "offset sh idx < length (indices sh)" by (simp add: length_indices offset_less)
  show ?thesis using o i by (simp add: r tget_def expand_to_def indices_nth_offset)
qed

lemma tensor_add_shape:
  "tensor_add a b = Inr r \<Longrightarrow> broadcast_shapes (shape a) (shape b) = Inr (shape r)"
  by (auto simp add: tensor_add_def andThen_eq_Inr)

lemma broadcast_batch: "broadcast_shapes [B, N, E] [Suc 0, N, E] = Inr [B, N, E]"
  by (simp add: broadcast_shapes_def pad_shape_def broadcast_dim_def)

lemma source_index_batch:
  "i < N \<Longrightarrow> e < E \<Longrightarrow> source_index [Suc 0, N, E] [b, i, e] = [0, i, e]"
  by (simp add: source_index_def)

lemma flatten_grid_element:
  assumes "flatten 2 c = Inr fl" and "shape c = [B, E, H, W]" and "i < H * W"
  shows "shape fl = [B, E, H * W] \<and> tget fl [b, e, i] = tget c [b, e, i div W, i mod W]"
  using assms by (auto simp add: flatten_def tget_def algebra_simps)

lemma transpose_sequence_element:
  assumes "transpose_dims 1 2 fl = Inr x" and "shape fl = [B, E, N]"
    and "b < B" and "i < N" and "e < E"
  shows "shape x = [B, N, E] \<and> tget x [b, i, e] = tget fl [b, e, i]"
proof -
  from assms(1,2) have x: "x = \<lparr>shape = [B, N, E],
      data = map (\<lambda>idx. tget fl (swap 1 2 idx)) (indices [B, N, E])\<rparr>"
    by (auto simp add: transpose_dims_def swap_def split: if_splits)
  have "in_range [B, N, E] [b, i, e]" using assms by simp
  then have "tget x [b, i, e] = tget fl (swap 1 2 [b, i, e])"
    unfolding x by (rule tget_indices)
  then show ?thesis by (simp add: x swap_def)
qed

lemma length_embedding_row:
  assumes "shape (weight emb) = [n, d]" and "wf_tensor (weight emb)"
    and "embedding_dim emb = int d" and "0 \<le> i" and "nat i < n"
  shows "length (embedding_row emb i) = d"
proof -
  from assms(1,2) have len: "length (data (weight emb)) = n * d" by (simp add: wf_tensor_def)
  from assms(5) have "Suc (nat i) * d \<le> n * d" by (intro mult_le_mono1) simp
  then have "d \<le> n * d - nat i * d" by simp
  then show ?thesis by (simp add: embedding_row_def assms(3) len)
qed

lemma nth_embedding_row:
  assumes "shape (weight emb) = [n, d]" and "wf_tensor (weight emb)"
    and "embedding_dim emb = int d" and "0 \<le> i" and "nat i < n" and "e < d"
  shows "embedding_row emb i ! e = tget (weight emb) [nat i, e]"
proof -
  from assms(1,2) have len: "length (data (weight emb)) = n * d" by (simp add: wf_tensor_def)
  from assms(5) have "Suc (nat i) * d \<le> n * d" by (intro mult_le_mono1) simp
  with assms(6) have "nat i * d + e < n * d" by simp
  moreover from assms(5) have "nat i * d \<le> n * d" by (intro mult_le_mono1) simp
  ultimately have "nat i * d + e < n * d" and "nat i * d \<le> n * d" by simp_all
  then show ?thesis by (simp add: embedding_row_def assms tget_def len)
qed

lemma Embedding_forward_element:
  assumes "Embedding_forward emb ids = Inr pos"
    and "shape (weight emb) = [n, d]" and "wf_tensor (weight emb)"
    and "embedding_dim emb = int d" and "num_embeddings emb = int n"
    and "k < length (data ids)" and "e < d"
  shows "data pos ! (k * d + e) = tget (weight emb) [nat (data ids ! k), e]"
proof -
  from assms(1) have ok: "list_all (\<lambda>i. 0 \<le> i \<and> i < num_embeddings emb) (data ids)"
    and pos: "data pos = concat (map (embedding_row emb) (data ids))"
    by (auto simp add: Embedding_forward_def split: if_splits)
  have rng: "0 \<le> data ids ! j \<and> nat (data ids ! j) < n" if "j < length (data ids)" for j
    using ok that assms(5) by (auto simp add: list_all_length)
  have "map (embedding_row emb) (data ids) =
          map (\<lambda>j. embedding_row emb (data ids ! j)) [0..<length (data ids)]"
    by (rule nth_equalityI) simp_all
  then have "data pos ! (k * d + e) =
      concat (map (\<lambda>j. embedding_row emb (data ids ! j)) [0..<length (data ids)]) ! (k * d + e)"
    by (simp add: pos)
  also have "\<dots> = embedding_row emb (data ids ! k) ! e"
    using assms(2-4,6,7) rng by (intro nth_concat_uniform) (simp_all add: length_embedding_row)
  also have "\<dots> = tget (weight emb) [nat (data ids ! k), e]"
  proof -
    from rng [OF assms(6)] have "0 \<le> data ids ! k" and "nat (data ids ! k) < n" by blast+
    then show ?thesis by (rule nth_embedding_row [OF assms(2,3,4) _ _ assms(7)])
  qed
  finally show ?thesis .
qed

section \<open>Convolution windows\<close>

lemma conv_window_iff:
  "(r, q) \<in> set (conv_window k s i j) \<longleftrightarrow>
     i * s \<le> r \<and> r < i * s + k \<and> j * s \<le> q \<and> q < j * s + k"
proof -
  have m: "\<And>a x. x \<in> (\<lambda>u. a + u) ` {0..<k} \<longleftrightarrow> a \<le> x \<and> x < a + k"
  proof
    fix a x assume "x \<in> (\<lambda>u. a + u) ` {0..<k}" then show "a \<le> x \<and> x < a + k" by auto
  next
    fix a x assume h: "a \<le> x \<and> x < a + k"
    then have "x = a + (x - a)" "x - a \<in> {0..<k}" by auto
    then show "x \<in> (\<lambda>u. a + u) ` {0..<k}" by (rule image_eqI)
  qed
  show ?thesis by (simp add: conv_window_def m add.commute)
qed

lemma length_conv_window: "length (conv_window k s i j) = k * k"
  by (simp add: conv_window_def)

lemma window_row: "i * k \<le> r \<Longrightarrow> r < i * k + k \<Longrightarrow> r div k = (i::nat)"
  by (rule div_nat_eqI) (simp_all add: mult.commute)

lemma conv_windows_disjoint:
  assumes "(i, j) \<noteq> (i', j')"
  shows "set (conv_window k k i j) \<inter> set (conv_window k k i' j') = {}"
proof (rule ccontr)
  assume "set (conv_window k k i j) \<inter> set (conv_window k k i' j') \<noteq> {}"
  then obtain r q where a: "(r, q) \<in> set (conv_window k k i j)"
    and b: "(r, q) \<in> set (conv_window k k i' j')" by auto
  from a have "r div k = i" "q div k = j" by (simp_all add: conv_window_iff window_row)
  moreover from b have "r div k = i'" "q div k = j'" by (simp_all add: conv_window_iff window_row)
  ultimately show False using assms by simp
qed

lemma conv_element_reads_window:
  assumes "\<And>c r q. c < nat (in_channels conv) \<Longrightarrow>
      (r, q) \<in> set (conv_window (nat (kernel_size conv)) (nat (stride conv)) i j) \<Longrightarrow>
      tget x [b, c, r, q] = tget x' [b, c, r, q]"
  shows "conv_element conv x [b, oc, i, j] = conv_element conv x' [b, oc, i, j]"
proof -
  have "map (\<lambda>c. map (\<lambda>(r, q). tget (conv_weight conv) [oc, c, r - i * nat (stride conv), q - j * nat (stride conv)]
                                            * tget x [b, c, r, q])
                 (conv_window (nat (kernel_size conv)) (nat (stride conv)) i j))
            [0..<nat (in_channels conv)] =
        map (\<lambda>c. map (\<lambda>(r, q). tget (conv_weight conv) [oc, c, r - i * nat (stride conv), q - j * nat (stride conv)]
                                            * tget x' [b, c, r, q])
                 (conv_window (nat (kernel_size conv)) (nat (stride conv)) i j))
            [0..<nat (in_channels conv)]"
    using assms by (intro map_cong refl) auto
  then show ?thesis unfolding conv_element_def Let_def by (simp only: nth_Cons_0 nth_Cons_Suc One_nat_def numeral_2_eq_2 numeral_3_eq_3)
qed

lemma patch_grid: "0 < p \<Longrightarrow> p \<le> h \<Longrightarrow> Suc ((h - p) div p) = h div (p::nat)"
  by (simp add: le_div_geq)

lemma Conv2d_forward_shape:
  assumes "Conv2d_forward conv x = Inr c" and "shape x = [b, ch, h, w]"
  shows "0 < stride conv \<and> kernel_size conv \<le> int h \<and> kernel_size conv \<le> int w \<and>
    int ch = in_channels conv \<and>
    shape c = [b, nat (out_channels conv),
               (h - nat (kernel_size conv)) div nat (stride conv) + 1,
               (w - nat (kernel_size conv)) div nat (stride conv) + 1] \<and>
    data c = map (conv_element conv x) (indices (shape c))"
  using assms by (auto simp add: Conv2d_forward_def Let_def simp del: indices.simps split: if_splits)

section \<open>The elements that the embeddings return\<close>

lemma embeddings_forward_elements:
  assumes init: "SiglipVisionEmbeddings_init nn config = Inr self"
    and shp: "shape pixel_values = [B, C, H, W]"
    and fwd: "SiglipVisionEmbeddings_forward self pixel_values = Inr r"
    and np: "int ((H div nat (patch_size config)) * (W div nat (patch_size config))) =
               num_positions self"
  shows "\<exists>c fl x.
      Conv2d_forward (patch_embedding self) pixel_values = Inr c \<and>
      shape c = [B, nat (hidden_size config), H div nat (patch_size config),
                 W div nat (patch_size config)] \<and>
      flatten 2 c = Inr fl \<and> transpose_dims 1 2 fl = Inr x \<and>
      shape x = [B, nat (num_positions self), nat (hidden_size config)] \<and>
      shape r = shape x \<and>
      (\<forall>b<B. \<forall>i<nat (num_positions self). \<forall>e<nat (hidden_size config).
         tget x [b, i, e] =
           tget c [b, e, i div (W div nat (patch_size config)),
                   i mod (W div nat (patch_size config))] \<and>
         tget r [b, i, e] =
           tget x [b, i, e] + tget (weight (position_embedding self)) [i, e])"
proof -
  define p where "p = nat (patch_size config)"
  define E where "E = nat (hidden_size config)"
  define N where "N = (H div p) * (W div p)"
  note f = SiglipVisionEmbeddings_init_Inr [OF init]
  from f have conv_fields: "kernel_size (patch_embedding self) = patch_size config"
    "stride (patch_embedding self) = patch_size config"
    "out_channels (patch_embedding self) = hidden_size config"
    and pos_p: "0 < patch_size config" and hid: "0 \<le> hidden_size config"
    by simp_all
  from f have emb: "shape (weight (position_embedding self)) = [nat (num_positions self), E]"
    "wf_tensor (weight (position_embedding self))"
    "embedding_dim (position_embedding self) = int E"
    "num_embeddings (position_embedding self) = int (nat (num_positions self))"
    and ids: "position_ids self =
      \<lparr>shape = [1, nat (num_positions self)], data = map int [0..<nat (num_positions self)]\<rparr>"
    by (simp_all add: E_def wf_tensor_def)
  from np have "nat (num_positions self) = nat (int ((H div p) * (W div p)))"
    by (simp only: p_def)
  then have N: "nat (num_positions self) = N" by (simp only: nat_int N_def)
  from fwd shp obtain c fl x pos where
    conv: "Conv2d_forward (patch_embedding self) pixel_values = Inr c"
    and fl: "flatten 2 c = Inr fl"
    and x: "transpose_dims 1 2 fl = Inr x"
    and pos: "Embedding_forward (position_embedding self) (position_ids self) = Inr pos"
    and r: "tensor_add x pos = Inr r"
    by (auto simp add: SiglipVisionEmbeddings_forward_def andThen_eq_Inr)
  note cs = Conv2d_forward_shape [OF conv shp]
  from cs pos_p have le: "p \<le> H" "p \<le> W" "0 < p"
    by (simp_all add: conv_fields p_def nat_le_iff)
  from cs have c: "shape c = [B, E, (H - p) div p + 1, (W - p) div p + 1]"
    by (simp add: conv_fields p_def E_def)
  with le have c': "shape c = [B, E, H div p, W div p]" by (simp add: patch_grid)
  from fl c' have sfl: "shape fl = [B, E, N]" by (auto simp add: flatten_def N_def)
  from x sfl have sx: "shape x = [B, N, E]"
    by (auto simp add: transpose_dims_def swap_def split: if_splits)
  from pos have spos: "shape pos = [1, N, E]"
    by (auto simp add: Embedding_forward_def ids emb N split: if_splits)
  from tensor_add_shape [OF r] have sr: "shape r = [B, N, E]"
    by (simp add: sx spos broadcast_batch)
  have elem: "tget x [b, i, e] = tget c [b, e, i div (W div p), i mod (W div p)] \<and>
      tget r [b, i, e] = tget x [b, i, e] + tget (weight (position_embedding self)) [i, e]"
    if "b < B" "i < N" "e < E" for b i e
  proof
    from transpose_sequence_element [OF x sfl that]
    have "tget x [b, i, e] = tget fl [b, e, i]" by simp
    also from flatten_grid_element [OF fl c'] that(2)
    have "tget fl [b, e, i] = tget c [b, e, i div (W div p), i mod (W div p)]"
      by (simp add: N_def)
    finally show "tget x [b, i, e] = tget c [b, e, i div (W div p), i mod (W div p)]" .
  next
    have "in_range (shape r) [b, i, e]" using that by (simp add: sr)
    from tget_tensor_add [OF r this]
    have "tget r [b, i, e] = tget x [b, i, e] + tget pos [0, i, e]"
      using that by (simp add: sx spos source_index_same source_index_batch)
    moreover have "tget pos [0, i, e] = data pos ! (i * E + e)"
      by (simp add: tget_def spos)
    moreover have "data pos ! (i * E + e) =
        tget (weight (position_embedding self)) [nat (data (position_ids self) ! i), e]"
      using that by (intro Embedding_forward_element [OF pos emb]) (simp_all add: ids N)
    moreover have "nat (data (position_ids self) ! i) = i"
      using that by (simp add: ids N)
    ultimately show "tget r [b, i, e] =
        tget x [b, i, e] + tget (weight (position_embedding self)) [i, e]"
      by simp
  qed
  show ?thesis
    using conv c' fl x sx sr elem by (auto simp add: N p_def [symmetric] E_def [symmetric])
qed

section \<open>Patches and the elements that depend on them\<close>

lemma tget_map_indices:
  "data t = map f (indices (shape t)) \<Longrightarrow> in_range (shape t) idx \<Longrightarrow> tget t idx = f idx"
  by (simp add: tget_def offset_less length_indices indices_nth_offset)

lemma Conv2d_forward_element:
  assumes "Conv2d_forward conv x = Inr c" and "shape x = [B, C, H, W]"
    and "in_range (shape c) idx"
  shows "tget c idx = conv_element conv x idx"
  using Conv2d_forward_shape [OF assms(1,2)] assms(3) by (intro tget_map_indices) simp_all

lemma window_in_image:
  assumes "i < H div p" and "j < W div p"
  shows "set (conv_window p p i j) \<subseteq> {0..<H} \<times> {0..<W}"
proof -
  have b: "r < n" if "k < n div p" "r < k * p + p" for k r n :: nat
  proof -
    from that(1) have "Suc k * p \<le> (n div p) * p" by (intro mult_le_mono1) simp
    also have "\<dots> \<le> n" by simp
    finally show ?thesis using that(2) by simp
  qed
  show ?thesis using assms by (auto simp add: conv_window_iff intro: b)
qed

lemma same_patch_iff:
  "same_patch self b C x y i j \<longleftrightarrow>
     (\<forall>c<C. \<forall>(r, q)\<in>set (patch_pixels self i j). tget x [b, c, r, q] = tget y [b, c, r, q])"
  by (auto simp add: same_patch_def list_all_iff)

lemma embeddings_forward_element:
  assumes init: "SiglipVisionEmbeddings_init nn config = Inr self"
    and shp: "shape pixel_values = [B, C, H, W]"
    and fwd: "SiglipVisionEmbeddings_forward self pixel_values = Inr r"
    and np: "int ((H div nat (patch_size config)) * (W div nat (patch_size config))) =
               num_positions self"
    and conv: "Conv2d_forward (patch_embedding self) pixel_values = Inr c"
    and b: "b < B" and n: "n < (H div nat (patch_size config)) * (W div nat (patch_size config))"
    and e: "e < nat (hidden_size config)"
  shows "tget r [b, n, e] =
      tget c [b, e, n div (W div nat (patch_size config)), n mod (W div nat (patch_size config))] +
      tget (weight (position_embedding self)) [n, e]"
proof -
  from np have N: "nat (num_positions self) =
      (H div nat (patch_size config)) * (W div nat (patch_size config))"
    by (metis nat_int)
  from embeddings_forward_elements [OF init shp fwd np] conv obtain x where
    "\<forall>b<B. \<forall>i<nat (num_positions self). \<forall>e<nat (hidden_size config).
         tget x [b, i, e] =
           tget c [b, e, i div (W div nat (patch_size config)),
                   i mod (W div nat (patch_size config))] \<and>
         tget r [b, i, e] =
           tget x [b, i, e] + tget (weight (position_embedding self)) [i, e]"
    by auto
  with b n e N show ?thesis by simp
qed

lemma constructed_patch_embedding:
  assumes "SiglipVisionEmbeddings_init nn config = Inr self"
  shows "kernel_size (patch_embedding self) = patch_size config"
    and "stride (patch_embedding self) = patch_size config"
    and "out_channels (patch_embedding self) = hidden_size config"
    and "padding (patch_embedding self) = ''valid''"
    and "0 < patch_size config"
    and "patch_pixels self i j = conv_window (nat (patch_size config)) (nat (patch_size config)) i j"
  using SiglipVisionEmbeddings_init_Inr [OF assms] by (simp_all add: patch_pixels_def)

lemma constructed_conv_grid:
  assumes init: "SiglipVisionEmbeddings_init nn config = Inr self"
    and shp: "shape x = [B, C, H, W]"
    and conv: "Conv2d_forward (patch_embedding self) x = Inr c"
  shows "shape c = [B, nat (hidden_size config), H div nat (patch_size config),
                    W div nat (patch_size config)]"
    and "int C = in_channels (patch_embedding self)"
proof -
  note f = constructed_patch_embedding [OF init]
  note cs = Conv2d_forward_shape [OF conv shp]
  from cs f have le: "nat (patch_size config) \<le> H" "nat (patch_size config) \<le> W"
    "0 < nat (patch_size config)"
    by (simp_all add: nat_le_iff)
  from cs have "shape c = [B, nat (hidden_size config),
      (H - nat (patch_size config)) div nat (patch_size config) + 1,
      (W - nat (patch_size config)) div nat (patch_size config) + 1]"
    by (simp add: f)
  with le show "shape c = [B, nat (hidden_size config), H div nat (patch_size config),
                    W div nat (patch_size config)]"
    by (simp add: patch_grid)
  from cs show "int C = in_channels (patch_embedding self)" by simp
qed

lemma constructed_conv_local:
  assumes init: "SiglipVisionEmbeddings_init nn config = Inr self"
    and shp: "shape x = [B, C, H, W]" and shp': "shape y = [B, C, H, W]"
    and conv: "Conv2d_forward (patch_embedding self) x = Inr c"
    and conv': "Conv2d_forward (patch_embedding self) y = Inr c'"
    and rng: "b < B" "oc < nat (hidden_size config)" "i < H div nat (patch_size config)"
      "j < W div nat (patch_size config)"
    and same: "same_patch self b C x y i j"
  shows "tget c' [b, oc, i, j] = tget c [b, oc, i, j]"
proof -
  note g = constructed_conv_grid [OF init shp conv]
  note g' = constructed_conv_grid [OF init shp' conv']
  have "tget c [b, oc, i, j] = conv_element (patch_embedding self) x [b, oc, i, j]"
    using rng by (intro Conv2d_forward_element [OF conv shp]) (simp add: g)
  moreover have "tget c' [b, oc, i, j] = conv_element (patch_embedding self) y [b, oc, i, j]"
    using rng by (intro Conv2d_forward_element [OF conv' shp']) (simp add: g')
  moreover have "conv_element (patch_embedding self) y [b, oc, i, j] =
      conv_element (patch_embedding self) x [b, oc, i, j]"
  proof (rule conv_element_reads_window)
    fix ch r q
    assume "ch < nat (in_channels (patch_embedding self))"
      and "(r, q) \<in> set (conv_window (nat (kernel_size (patch_embedding self)))
                           (nat (stride (patch_embedding self))) i j)"
    then have "ch < C" and "(r, q) \<in> set (patch_pixels self i j)"
      using g(2) by (simp_all add: patch_pixels_def)
    with same have "tget x [b, ch, r, q] = tget y [b, ch, r, q]"
      unfolding same_patch_iff by blast
    then show "tget y [b, ch, r, q] = tget x [b, ch, r, q]" by simp
  qed
  ultimately show ?thesis by simp
qed

section \<open>The claims about names, calls and composition\<close>

text \<open>
  C1. The claim: for every configuration and input, \<^verbatim>\<open>SiglipVisionTransformer.forward\<close>
  computes the patch embedding, applies the stack of encoder layers to it, applies the
  final layer normalisation and returns that value. On the hand-assembled instance
  \<open>small_transformer\<close> and the image \<open>small_image\<close> the call raises a
  \<open>TypeError\<close>, although embedding, encoder and normalisation applied in sequence to
  the same image return a tensor: \<^verbatim>\<open>forward\<close> never calls its encoder.
\<close>

theorem SiglipVisionTransformer_forward_skips_encoder:
  "SiglipVisionTransformer_forward small_transformer small_image =
     Inl (TypeError ''forward() got an unexpected keyword argument input_embeds'') \<and>
   sequential
     [\<lambda>x. SiglipVisionEmbeddings_call (embeddings small_transformer) [x] [],
      \<lambda>h. encoder small_transformer [h] [],
      post_layernorm small_transformer] small_image =
     Inr \<lparr>shape = [1, 4, 2], data = [12, 24, 24, 46, 36, 68, 48, 90]\<rparr>"
  by code_simp

text \<open>
  C2, as stated, fails on an input for which the first call of the embedding layer
  raises: the call with the keyword \<^verbatim>\<open>input_embeds\<close> is then never made. On an
  input that is not a batch of images the first call raises a \<open>ValueError\<close> when it
  unpacks the shape; on a batch of images with two patches, for an instance with four
  positions, it raises a \<open>RuntimeError\<close> when it adds the positions.
\<close>

theorem SiglipVisionTransformer_forward_first_call_raises:
  "SiglipVisionEmbeddings_call (embeddings small_transformer) [unbatched_image] [] =
     Inl (ValueError ''not enough values to unpack (expected 4)'') \<and>
   SiglipVisionTransformer_forward small_transformer unbatched_image =
     Inl (ValueError ''not enough values to unpack (expected 4)'') \<and>
   SiglipVisionEmbeddings_call (embeddings small_transformer) [wide_image] [] =
     Inl (RuntimeError ''The size of tensor a must match the size of tensor b'') \<and>
   SiglipVisionTransformer_forward small_transformer wide_image =
     Inl (RuntimeError ''The size of tensor a must match the size of tensor b'')"
  by code_simp

text \<open>
  C2, amended. For every instance and every input, \<^verbatim>\<open>SiglipVisionTransformer.forward\<close>
  first calls the embedding layer on the input, and an exception of that call is the
  exception of \<^verbatim>\<open>forward\<close>. Whenever that call returns, it calls the embedding
  layer again with the keyword \<^verbatim>\<open>input_embeds\<close>, which
  \<^verbatim>\<open>SiglipVisionEmbeddings.forward\<close> does not accept, and raises that \<open>TypeError\<close>. So
  \<^verbatim>\<open>forward\<close> raises on every input, and the final layer normalisation is never
  reached: replacing it changes nothing.
\<close>

theorem SiglipVisionTransformer_forward_raises:
  "SiglipVisionTransformer_forward self pixel_values =
     (case SiglipVisionEmbeddings_call (embeddings self) [pixel_values] [] of
        Inl e \<Rightarrow> Inl e
      | Inr hidden_states \<Rightarrow>
          Inl (TypeError ''forward() got an unexpected keyword argument input_embeds'')) \<and>
   SiglipVisionEmbeddings_call (embeddings self) [] [(''input_embeds'', hidden_states)] =
     Inl (TypeError ''forward() got an unexpected keyword argument input_embeds'') \<and>
   SiglipVisionTransformer_forward (self\<lparr>post_layernorm := other_norm\<rparr>) pixel_values =
     SiglipVisionTransformer_forward self pixel_values"
  by (simp add: SiglipVisionTransformer_forward_def emb_call_kw split: sum.splits)

theorem SiglipVisionTransformer_forward_raises_witness:
  "SiglipVisionEmbeddings_call (embeddings small_transformer) [small_image] [] =
     Inr \<lparr>shape = [1, 4, 2], data = [12, 24, 24, 46, 36, 68, 48, 90]\<rparr> \<and>
   SiglipVisionTransformer_forward small_transformer small_image =
     Inl (TypeError ''forward() got an unexpected keyword argument input_embeds'')"
proof -
  have h: "SiglipVisionEmbeddings_call (embeddings small_transformer) [small_image] [] =
     Inr \<lparr>shape = [1, 4, 2], data = [12, 24, 24, 46, 36, 68, 48, 90]\<rparr>"
    by code_simp
  from SiglipVisionTransformer_forward_raises [of small_transformer small_image] h
  show ?thesis by simp
qed

text \<open>
  C3. The name \<^verbatim>\<open>SiglipAttention\<close> is bound neither by the module nor as a builtin, and
  for every configuration the constructor of \<^verbatim>\<open>SiglipEncoderLayer\<close> raises the
  \<open>NameError\<close> of reading it, whatever the library's constructors would do and
  whatever the name would stand for.
\<close>

theorem SiglipEncoderLayer_init_NameError:
  "''SiglipAttention'' \<notin> set module_globals \<and> ''SiglipAttention'' \<notin> set builtins_used \<and>
   SiglipEncoderLayer_init nn SiglipAttention config =
     Inl (NameError ''name SiglipAttention is not defined'')"
  by (simp add: SiglipEncoderLayer_init_def load_SiglipAttention module_globals_def
        imported_names_def class_names_def builtins_used_def)

text \<open>
  C4. For every instance and every input, \<^verbatim>\<open>SiglipEncoderLayer.forward\<close> is two
  residual blocks in sequence: the first normalises with \<open>layer_norm1\<close> and applies the
  attention, the second normalises with \<open>layer_norm2\<close> and applies the MLP, and each
  adds its own input to its result. When every step returns, the result is the
  second sum.
\<close>

theorem SiglipEncoderLayer_forward_prenorm_residual:
  "SiglipEncoderLayer_forward nn self =
     sequential
       [residual_add (sequential [layer_norm1 self, attention_output (self_attention self)]),
        residual_add (sequential [layer_norm2 self, SiglipMLP_forward nn (mlp self)])] \<and>
   (layer_norm1 self x = Inr n1 \<longrightarrow>
    self_attention self [] [(''hidden_states'', n1)] = Inr (a, w) \<longrightarrow>
    tensor_add x a = Inr y \<longrightarrow>
    layer_norm2 self y = Inr n2 \<longrightarrow>
    SiglipMLP_forward nn (mlp self) n2 = Inr f \<longrightarrow>
    SiglipEncoderLayer_forward nn self x = tensor_add y f)"
proof
  show "SiglipEncoderLayer_forward nn self =
     sequential
       [residual_add (sequential [layer_norm1 self, attention_output (self_attention self)]),
        residual_add (sequential [layer_norm2 self, SiglipMLP_forward nn (mlp self)])]"
    by (rule ext)
       (simp add: SiglipEncoderLayer_forward_def residual_add_def attention_output_def mlp_call
          andThen_def split: sum.splits prod.splits)
  show "layer_norm1 self x = Inr n1 \<longrightarrow>
    self_attention self [] [(''hidden_states'', n1)] = Inr (a, w) \<longrightarrow>
    tensor_add x a = Inr y \<longrightarrow>
    layer_norm2 self y = Inr n2 \<longrightarrow>
    SiglipMLP_forward nn (mlp self) n2 = Inr f \<longrightarrow>
    SiglipEncoderLayer_forward nn self x = tensor_add y f"
    by (simp add: SiglipEncoderLayer_forward_def mlp_call andThen_def split: sum.splits)
qed

theorem SiglipEncoderLayer_forward_prenorm_residual_witness:
  "SiglipEncoderLayer_forward example_nn small_layer \<lparr>shape = [1, 2, 2], data = [1, 2, 3, 4]\<rparr> =
     tensor_add \<lparr>shape = [1, 2, 2], data = [2, 4, 6, 8]\<rparr>
       \<lparr>shape = [1, 2, 2], data = [18, 18, 42, 42]\<rparr> \<and>
   tensor_add \<lparr>shape = [1, 2, 2], data = [2, 4, 6, 8]\<rparr>
       \<lparr>shape = [1, 2, 2], data = [18, 18, 42, 42 :: real]\<rparr> =
     Inr \<lparr>shape = [1, 2, 2], data = [20, 22, 48, 50]\<rparr>"
proof -
  let ?x = "\<lparr>shape = [1, 2, 2], data = [1, 2, 3, 4 :: real]\<rparr>"
  let ?y = "\<lparr>shape = [1, 2, 2], data = [2, 4, 6, 8 :: real]\<rparr>"
  let ?f = "\<lparr>shape = [1, 2, 2], data = [18, 18, 42, 42 :: real]\<rparr>"
  have h1: "layer_norm1 small_layer ?x = Inr ?x" by code_simp
  have h2: "self_attention small_layer [] [(''hidden_states'', ?x)] = Inr (?x, None)"
    by code_simp
  have h3: "tensor_add ?x ?x = Inr ?y" by code_simp
  have h4: "layer_norm2 small_layer ?y = Inr ?y" by code_simp
  have h5: "SiglipMLP_forward example_nn (mlp small_layer) ?y = Inr ?f" by code_simp
  have h6: "tensor_add ?y ?f = Inr \<lparr>shape = [1, 2, 2], data = [20, 22, 48, 50]\<rparr>"
    by code_simp
  from SiglipEncoderLayer_forward_prenorm_residual
         [of example_nn small_layer ?x ?x ?x None ?y ?y ?f, THEN conjunct2, rule_format,
          OF h1 h2 h3 h4 h5] h6
  show ?thesis by simp
qed

text \<open>
  C5. The class statement of \<^verbatim>\<open>SiglipVisionModel\<close> binds \<^verbatim>\<open>forwrd\<close>, whose body calls
  \<^verbatim>\<open>vision_model\<close>, and no \<^verbatim>\<open>forward\<close>. Calling an instance therefore runs the
  inherited \<^verbatim>\<open>forward\<close> and not that body: with a keyword argument the call raises a
  \<open>TypeError\<close> for the first keyword, without one it raises \<open>NotImplementedError\<close>.
  Either way it raises, and replacing \<open>vision_model\<close> changes nothing.
\<close>

theorem SiglipVisionModel_call_NotImplemented:
  "map_of (SiglipVisionModel_namespace self) ''forward'' = None \<and>
   (\<exists>m. map_of (SiglipVisionModel_namespace self) ''forwrd'' = Some m \<and>
        m [pixel_values] [] = SiglipVisionModel_forwrd self pixel_values) \<and>
   SiglipVisionModel_call self args kwargs =
     (case kwargs of
        [] \<Rightarrow>
          Inl (NotImplementedError
                 ''Module [SiglipVisionModel] is missing the required forward function'')
      | (k, v) # rest \<Rightarrow>
          Inl (TypeError (''_forward_unimplemented() got an unexpected keyword argument '' @ k))) \<and>
   (\<exists>e. SiglipVisionModel_call self args kwargs = Inl e) \<and>
   SiglipVisionModel_call (self\<lparr>vision_model := other\<rparr>) args kwargs =
     SiglipVisionModel_call self args kwargs"
proof -
  have ns: "map_of (SiglipVisionModel_namespace self) ''forward'' = None"
    "map_of (SiglipVisionModel_namespace (self\<lparr>vision_model := other\<rparr>)) ''forward'' = None"
    by (simp_all add: SiglipVisionModel_namespace_def)
  have m: "\<exists>m. map_of (SiglipVisionModel_namespace self) ''forwrd'' = Some m \<and>
        m [pixel_values] [] = SiglipVisionModel_forwrd self pixel_values"
    by (simp add: SiglipVisionModel_namespace_def bind_args_def argument_def)
  have c: "SiglipVisionModel_call s args kwargs =
      forward_unimplemented ''SiglipVisionModel'' args kwargs"
    if "map_of (SiglipVisionModel_namespace s) ''forward'' = None" for s
    using that by (simp add: SiglipVisionModel_call_def Module_call_def)
  have u: "forward_unimplemented ''SiglipVisionModel'' args kwargs =
     (case kwargs of
        [] \<Rightarrow>
          Inl (NotImplementedError
                 ''Module [SiglipVisionModel] is missing the required forward function'')
      | (k, v) # rest \<Rightarrow>
          Inl (TypeError (''_forward_unimplemented() got an unexpected keyword argument '' @ k)))"
    by (simp add: forward_unimplemented_def split: list.splits)
  have e: "\<exists>e. forward_unimplemented ''SiglipVisionModel'' args kwargs = Inl e"
    by (simp add: forward_unimplemented_def split: list.splits prod.splits)
  show ?thesis
    using ns(1) m e unfolding c [OF ns(1)] c [OF ns(2)] u by (intro conjI) simp_all
qed

text \<open>
  C8. For every instance and every input, \<^verbatim>\<open>SiglipMLP.forward\<close> is three layers in
  sequence and nothing else: \<open>fc1\<close>, the GELU with \<^verbatim>\<open>approximate="tanh"\<close>, and \<open>fc2\<close>;
  calling the instance runs it. In an instance that the constructor built,
  \<open>fc1\<close> is the linear layer from \<open>hidden_size\<close> to \<open>intermediate_size\<close> and \<open>fc2\<close>
  the one back.
\<close>

theorem SiglipMLP_forward_two_linear_gelu:
  "SiglipMLP_forward nn self =
     sequential [fc1 self, \<lambda>hidden_states. nn_gelu nn hidden_states ''tanh'', fc2 self] \<and>
   SiglipMLP_call nn self [hidden_states] [] = SiglipMLP_forward nn self hidden_states \<and>
   (SiglipMLP_init nn config = Inr self \<longrightarrow>
      nn_Linear nn (hidden_size config) (intermediate_size config) = Inr (fc1 self) \<and>
      nn_Linear nn (intermediate_size config) (hidden_size config) = Inr (fc2 self))"
proof (intro conjI impI)
  show "SiglipMLP_forward nn self =
     sequential [fc1 self, \<lambda>hidden_states. nn_gelu nn hidden_states ''tanh'', fc2 self]"
    by (rule ext) (simp add: SiglipMLP_forward_def andThen_def split: sum.splits)
  show "SiglipMLP_call nn self [hidden_states] [] = SiglipMLP_forward nn self hidden_states"
    by (rule mlp_call)
next
  assume "SiglipMLP_init nn config = Inr self"
  then obtain l1 l2 where
    "nn_Linear nn (hidden_size config) (intermediate_size config) = Inr l1"
    "nn_Linear nn (intermediate_size config) (hidden_size config) = Inr l2"
    "self = \<lparr>mlp_config = config, fc1 = l1, fc2 = l2\<rparr>"
    by (auto simp add: SiglipMLP_init_def andThen_eq_Inr)
  then show "nn_Linear nn (hidden_size config) (intermediate_size config) = Inr (fc1 self)"
    and "nn_Linear nn (intermediate_size config) (hidden_size config) = Inr (fc2 self)"
    by simp_all
qed

theorem SiglipMLP_forward_two_linear_gelu_witness:
  "SiglipMLP_init example_nn small_config = Inr small_mlp \<and>
   nn_Linear example_nn 2 3 = Inr (fc1 small_mlp) \<and>
   nn_Linear example_nn 3 2 = Inr (fc2 small_mlp) \<and>
   SiglipMLP_call example_nn small_mlp [\<lparr>shape = [1, 2, 2], data = [1, 2, 3, 4]\<rparr>] [] =
     Inr \<lparr>shape = [1, 2, 2], data = [9, 9, 21, 21]\<rparr>"
proof -
  have h: "SiglipMLP_init example_nn small_config = Inr small_mlp"
    by (simp add: SiglipMLP_init_def example_nn_def small_config_def small_mlp_def
          example_Linear_def)
  have v: "SiglipMLP_forward example_nn small_mlp \<lparr>shape = [1, 2, 2], data = [1, 2, 3, 4]\<rparr> =
     Inr \<lparr>shape = [1, 2, 2], data = [9, 9, 21, 21]\<rparr>"
    by code_simp
  from SiglipMLP_forward_two_linear_gelu
         [of example_nn small_mlp "\<lparr>shape = [1, 2, 2], data = [1, 2, 3, 4]\<rparr>" small_config] h v
  show ?thesis by (simp add: small_config_def)
qed

text \<open>
  C9, as stated, fails on a configuration whose patch size is 0: the constructor of
  the embeddings, which runs first, raises \<open>ZeroDivisionError\<close> when it divides the
  image size by the patch size, and the name \<^verbatim>\<open>SiglipEncoder\<close> is never read.
\<close>

theorem SiglipVisionTransformer_init_zero_patch_size:
  "SiglipVisionTransformer_init example_nn (\<lambda>config. Inr example_encoder)
      (default_config\<lparr>patch_size := 0\<rparr>) = Inl ZeroDivisionError \<and>
   SiglipVisionModel_init example_nn (\<lambda>config. Inr example_encoder)
      (default_config\<lparr>patch_size := 0\<rparr>) = Inl ZeroDivisionError"
proof -
  have "SiglipVisionEmbeddings_init example_nn (default_config\<lparr>patch_size := 0\<rparr>) =
      Inl ZeroDivisionError"
    by (simp add: SiglipVisionEmbeddings_init_def nn_Conv2d_def new_parameter_def allocate_def
          int64_min_def int64_max_def floordiv_def default_config_def example_nn_def)
  then show ?thesis
    by (simp add: SiglipVisionModel_init_def SiglipVisionTransformer_init_def load_defined)
qed

text \<open>
  C9, amended. The name \<^verbatim>\<open>SiglipEncoder\<close> is bound neither by the module nor as a
  builtin. For every configuration the constructors of \<^verbatim>\<open>SiglipVisionTransformer\<close> and
  of \<^verbatim>\<open>SiglipVisionModel\<close> raise: the exception of the constructor of the embeddings
  if that one raises, and otherwise the \<open>NameError\<close> of reading \<^verbatim>\<open>SiglipEncoder\<close>.
\<close>

theorem SiglipVisionTransformer_init_raises:
  "SiglipVisionTransformer_init nn SiglipEncoder config =
     (case SiglipVisionEmbeddings_init nn config of
        Inl e \<Rightarrow> Inl e
      | Inr emb \<Rightarrow> Inl (NameError ''name SiglipEncoder is not defined'')) \<and>
   SiglipVisionModel_init nn SiglipEncoder config =
     (case SiglipVisionEmbeddings_init nn config of
        Inl e \<Rightarrow> Inl e
      | Inr emb \<Rightarrow> Inl (NameError ''name SiglipEncoder is not defined'')) \<and>
   ''SiglipEncoder'' \<notin> set module_globals \<and> ''SiglipEncoder'' \<notin> set builtins_used"
proof -
  have a: "SiglipVisionTransformer_init nn SiglipEncoder config =
     (case SiglipVisionEmbeddings_init nn config of
        Inl e \<Rightarrow> Inl e
      | Inr emb \<Rightarrow> Inl (NameError ''name SiglipEncoder is not defined''))"
    by (simp add: SiglipVisionTransformer_init_def load_SiglipEncoder load_defined
          split: sum.splits)
  have b: "SiglipVisionModel_init nn SiglipEncoder config =
     (case SiglipVisionEmbeddings_init nn config of
        Inl e \<Rightarrow> Inl e
      | Inr emb \<Rightarrow> Inl (NameError ''name SiglipEncoder is not defined''))"
    by (simp add: SiglipVisionModel_init_def a load_defined split: sum.splits)
  have c: "''SiglipEncoder'' \<notin> set module_globals \<and> ''SiglipEncoder'' \<notin> set builtins_used"
    by (simp add: module_globals_def imported_names_def class_names_def builtins_used_def)
  from a b c show ?thesis by (intro conjI) simp_all
qed

theorem SiglipVisionTransformer_init_raises_witness:
  "SiglipVisionEmbeddings_init example_nn small_config = Inr small_embeddings \<and>
   SiglipVisionTransformer_init example_nn (\<lambda>config. Inr example_encoder) small_config =
     Inl (NameError ''name SiglipEncoder is not defined'') \<and>
   SiglipVisionModel_init example_nn (\<lambda>config. Inr example_encoder) small_config =
     Inl (NameError ''name SiglipEncoder is not defined'')"
proof -
  have h: "SiglipVisionEmbeddings_init example_nn small_config = Inr small_embeddings"
    by code_simp
  from SiglipVisionTransformer_init_raises
         [of example_nn "\<lambda>config. Inr example_encoder" small_config] h
  show ?thesis by simp
qed

section \<open>The claims about the embeddings\<close>

text \<open>
  C6. In every instance that the constructor of \<^verbatim>\<open>SiglipVisionEmbeddings\<close> builds, the
  patch embedding is a convolution without padding whose stride is its kernel size,
  the patch size, which is positive; the pixels of two different patches are disjoint,
  and every patch has patch size times patch size pixels. Called on a batch of images,
  that convolution returns a grid of \<open>height div patch_size\<close> by
  \<open>width div patch_size\<close> patches; the element for a patch is computed from the pixels
  of that patch, which lie inside the image, and is the same for any other batch with
  the same values at those pixels. Whenever \<^verbatim>\<open>forward\<close> returns, that convolution has
  returned, and for a batch with as many patches as the instance has positions the
  element of the result at a patch is the same for any other batch with the same
  values at the pixels of that patch. The position embedding is a table of
  \<open>(image_size div patch_size)\<^sup>2\<close> rows of \<open>hidden_size\<close> elements.
\<close>

theorem SiglipVisionEmbeddings_patches_and_table:
  assumes init: "SiglipVisionEmbeddings_init nn config = Inr self"
  shows "kernel_size (patch_embedding self) = patch_size config \<and>
    stride (patch_embedding self) = kernel_size (patch_embedding self) \<and>
    0 < stride (patch_embedding self) \<and>
    padding (patch_embedding self) = ''valid'' \<and>
    (\<forall>i j i' j'. (i, j) \<noteq> (i', j') \<longrightarrow>
       set (patch_pixels self i j) \<inter> set (patch_pixels self i' j') = {}) \<and>
    (\<forall>i j. length (patch_pixels self i j) = nat (patch_size config) * nat (patch_size config)) \<and>
    num_embeddings (position_embedding self) = (image_size config div patch_size config) ^ 2 \<and>
    shape (weight (position_embedding self)) =
      [nat ((image_size config div patch_size config) ^ 2), nat (hidden_size config)] \<and>
    wf_tensor (weight (position_embedding self)) \<and>
    (shape pixel_values = [B, C, H, W] \<and>
     Conv2d_forward (patch_embedding self) pixel_values = Inr c \<longrightarrow>
       shape c = [B, nat (hidden_size config), H div nat (patch_size config),
                  W div nat (patch_size config)] \<and>
       (\<forall>b<B. \<forall>oc<nat (hidden_size config). \<forall>i<H div nat (patch_size config).
          \<forall>j<W div nat (patch_size config).
            tget c [b, oc, i, j] = conv_element (patch_embedding self) pixel_values [b, oc, i, j] \<and>
            set (patch_pixels self i j) \<subseteq> {0..<H} \<times> {0..<W} \<and>
            (shape other = [B, C, H, W] \<and>
             Conv2d_forward (patch_embedding self) other = Inr c' \<and>
             same_patch self b C pixel_values other i j \<longrightarrow>
               tget c' [b, oc, i, j] = tget c [b, oc, i, j]))) \<and>
    (shape pixel_values = [B, C, H, W] \<and>
     SiglipVisionEmbeddings_forward self pixel_values = Inr r \<longrightarrow>
       (\<exists>c. Conv2d_forward (patch_embedding self) pixel_values = Inr c) \<and>
       (int ((H div nat (patch_size config)) * (W div nat (patch_size config))) =
          num_positions self \<and>
        shape other = [B, C, H, W] \<and>
        SiglipVisionEmbeddings_forward self other = Inr r' \<longrightarrow>
          (\<forall>b<B. \<forall>n<(H div nat (patch_size config)) * (W div nat (patch_size config)).
             \<forall>e<nat (hidden_size config).
               same_patch self b C pixel_values other
                 (n div (W div nat (patch_size config))) (n mod (W div nat (patch_size config))) \<longrightarrow>
               tget r' [b, n, e] = tget r [b, n, e])))"
proof -
  let ?p = "nat (patch_size config)"
  note f = constructed_patch_embedding [OF init]
  note g = SiglipVisionEmbeddings_init_Inr [OF init]
  have fields: "kernel_size (patch_embedding self) = patch_size config \<and>
    stride (patch_embedding self) = kernel_size (patch_embedding self) \<and>
    0 < stride (patch_embedding self) \<and>
    padding (patch_embedding self) = ''valid''"
    by (simp add: f)
  have disjoint: "\<forall>i j i' j'. (i, j) \<noteq> (i', j') \<longrightarrow>
       set (patch_pixels self i j) \<inter> set (patch_pixels self i' j') = {}"
    by (simp add: f conv_windows_disjoint del: split_paired_All)
  have size: "\<forall>i j. length (patch_pixels self i j) = ?p * ?p"
    by (simp add: f length_conv_window)
  from g have table: "num_embeddings (position_embedding self) =
      (image_size config div patch_size config) ^ 2 \<and>
    shape (weight (position_embedding self)) =
      [nat ((image_size config div patch_size config) ^ 2), nat (hidden_size config)] \<and>
    wf_tensor (weight (position_embedding self))"
    by (simp add: wf_tensor_def)
  have conv: "shape c = [B, nat (hidden_size config), H div ?p, W div ?p] \<and>
       (\<forall>b<B. \<forall>oc<nat (hidden_size config). \<forall>i<H div ?p. \<forall>j<W div ?p.
            tget c [b, oc, i, j] = conv_element (patch_embedding self) pixel_values [b, oc, i, j] \<and>
            set (patch_pixels self i j) \<subseteq> {0..<H} \<times> {0..<W} \<and>
            (shape other = [B, C, H, W] \<and>
             Conv2d_forward (patch_embedding self) other = Inr c' \<and>
             same_patch self b C pixel_values other i j \<longrightarrow>
               tget c' [b, oc, i, j] = tget c [b, oc, i, j]))"
    if shp: "shape pixel_values = [B, C, H, W]"
      and cv: "Conv2d_forward (patch_embedding self) pixel_values = Inr c"
  proof (intro conjI allI impI)
    show s: "shape c = [B, nat (hidden_size config), H div ?p, W div ?p]"
      by (rule constructed_conv_grid [OF init shp cv])
    fix b oc i j
    assume r: "b < B" "oc < nat (hidden_size config)" "i < H div ?p" "j < W div ?p"
    show "tget c [b, oc, i, j] = conv_element (patch_embedding self) pixel_values [b, oc, i, j]"
      using r by (intro Conv2d_forward_element [OF cv shp]) (simp add: s)
    show "set (patch_pixels self i j) \<subseteq> {0..<H} \<times> {0..<W}"
      unfolding f using r(3,4) by (rule window_in_image)
    assume "shape other = [B, C, H, W] \<and>
             Conv2d_forward (patch_embedding self) other = Inr c' \<and>
             same_patch self b C pixel_values other i j"
    then have o: "shape other = [B, C, H, W]"
      "Conv2d_forward (patch_embedding self) other = Inr c'"
      "same_patch self b C pixel_values other i j"
      by simp_all
    show "tget c' [b, oc, i, j] = tget c [b, oc, i, j]"
      by (rule constructed_conv_local [OF init shp o(1) cv o(2) r o(3)])
  qed
  have fwd: "(\<exists>c. Conv2d_forward (patch_embedding self) pixel_values = Inr c) \<and>
       (int ((H div ?p) * (W div ?p)) = num_positions self \<and>
        shape other = [B, C, H, W] \<and>
        SiglipVisionEmbeddings_forward self other = Inr r' \<longrightarrow>
          (\<forall>b<B. \<forall>n<(H div ?p) * (W div ?p). \<forall>e<nat (hidden_size config).
               same_patch self b C pixel_values other (n div (W div ?p)) (n mod (W div ?p)) \<longrightarrow>
               tget r' [b, n, e] = tget r [b, n, e]))"
    if shp: "shape pixel_values = [B, C, H, W]"
      and fw: "SiglipVisionEmbeddings_forward self pixel_values = Inr r"
  proof (intro conjI allI impI)
    from fw shp obtain c where cv: "Conv2d_forward (patch_embedding self) pixel_values = Inr c"
      by (auto simp add: SiglipVisionEmbeddings_forward_def andThen_eq_Inr)
    then show "\<exists>c. Conv2d_forward (patch_embedding self) pixel_values = Inr c" ..
    fix b n e
    assume h: "int ((H div ?p) * (W div ?p)) = num_positions self \<and>
        shape other = [B, C, H, W] \<and>
        SiglipVisionEmbeddings_forward self other = Inr r'"
      and r: "b < B" "n < (H div ?p) * (W div ?p)" "e < nat (hidden_size config)"
      and same: "same_patch self b C pixel_values other (n div (W div ?p)) (n mod (W div ?p))"
    from h have np: "int ((H div ?p) * (W div ?p)) = num_positions self"
      and shp': "shape other = [B, C, H, W]"
      and fw': "SiglipVisionEmbeddings_forward self other = Inr r'"
      by simp_all
    from fw' shp' obtain c' where cv': "Conv2d_forward (patch_embedding self) other = Inr c'"
      by (auto simp add: SiglipVisionEmbeddings_forward_def andThen_eq_Inr)
    from r(2) have pos: "0 < W div ?p" by (cases "W div ?p") simp_all
    with r(2) have i: "n div (W div ?p) < H div ?p" and j: "n mod (W div ?p) < W div ?p"
      by (simp_all add: less_mult_imp_div_less)
    have "tget c' [b, e, n div (W div ?p), n mod (W div ?p)] =
        tget c [b, e, n div (W div ?p), n mod (W div ?p)]"
      by (rule constructed_conv_local [OF init shp shp' cv cv' r(1,3) i j same])
    moreover note embeddings_forward_element [OF init shp fw np cv r]
      embeddings_forward_element [OF init shp' fw' np cv' r]
    ultimately show "tget r' [b, n, e] = tget r [b, n, e]" by simp
  qed
  show ?thesis using fields disjoint size table conv fwd by blast
qed

theorem SiglipVisionEmbeddings_patches_and_table_witness:
  "SiglipVisionEmbeddings_init example_nn grid_config = Inr grid_embeddings \<and>
   stride (patch_embedding grid_embeddings) = 2 \<and>
   set (patch_pixels grid_embeddings 0 0) \<inter> set (patch_pixels grid_embeddings 0 1) = {} \<and>
   Conv2d_forward (patch_embedding grid_embeddings) grid_image =
     Inr \<lparr>shape = [1, 1, 2, 2], data = [45, 65, 125, 145]\<rparr> \<and>
   Conv2d_forward (patch_embedding grid_embeddings) grid_image_changed =
     Inr \<lparr>shape = [1, 1, 2, 2], data = [45, 641, 1241, 1441]\<rparr> \<and>
   SiglipVisionEmbeddings_forward grid_embeddings grid_image =
     Inr \<lparr>shape = [1, 4, 1], data = [46, 67, 128, 149]\<rparr> \<and>
   SiglipVisionEmbeddings_forward grid_embeddings grid_image_changed =
     Inr \<lparr>shape = [1, 4, 1], data = [46, 643, 1244, 1445]\<rparr> \<and>
   same_patch grid_embeddings 0 1 grid_image grid_image_changed 0 0 \<and>
   tget \<lparr>shape = [1, 1, 2, 2], data = [45, 641, 1241, 1441 :: real]\<rparr> [0, 0, 0, 0] =
     tget \<lparr>shape = [1, 1, 2, 2], data = [45, 65, 125, 145]\<rparr> [0, 0, 0, 0] \<and>
   tget \<lparr>shape = [1, 4, 1], data = [46, 643, 1244, 1445 :: real]\<rparr> [0, 0, 0] =
     tget \<lparr>shape = [1, 4, 1], data = [46, 67, 128, 149]\<rparr> [0, 0, 0]"
proof -
  let ?c = "\<lparr>shape = [1, 1, 2, 2], data = [45, 65, 125, 145 :: real]\<rparr>"
  let ?c' = "\<lparr>shape = [1, 1, 2, 2], data = [45, 641, 1241, 1441 :: real]\<rparr>"
  let ?r = "\<lparr>shape = [1, 4, 1], data = [46, 67, 128, 149 :: real]\<rparr>"
  let ?r' = "\<lparr>shape = [1, 4, 1], data = [46, 643, 1244, 1445 :: real]\<rparr>"
  have h: "SiglipVisionEmbeddings_init example_nn grid_config = Inr grid_embeddings"
    by code_simp
  have s1: "shape grid_image = [1, 1, 4, 4]" by (simp add: grid_image_def)
  have s2: "shape grid_image_changed = [1, 1, 4, 4]" by (simp add: grid_image_changed_def)
  have c1: "Conv2d_forward (patch_embedding grid_embeddings) grid_image = Inr ?c"
    by code_simp
  have c2: "Conv2d_forward (patch_embedding grid_embeddings) grid_image_changed = Inr ?c'"
    by code_simp
  have f1: "SiglipVisionEmbeddings_forward grid_embeddings grid_image = Inr ?r"
    by code_simp
  have f2: "SiglipVisionEmbeddings_forward grid_embeddings grid_image_changed = Inr ?r'"
    by code_simp
  have sp: "same_patch grid_embeddings 0 1 grid_image grid_image_changed 0 0"
    by code_simp
  have cfg: "patch_size grid_config = 2" "hidden_size grid_config = 1"
    by (simp_all add: grid_config_def small_config_def)
  have np: "int ((4 div nat (patch_size grid_config)) * (4 div nat (patch_size grid_config))) =
      num_positions grid_embeddings"
    by (simp add: cfg grid_embeddings_def)
  note t = SiglipVisionEmbeddings_patches_and_table
    [OF h, where pixel_values = grid_image and B = 1 and C = 1 and H = 4 and W = 4
       and c = ?c and other = grid_image_changed and c' = ?c' and r = ?r and r' = ?r']
  note rest = t [THEN conjunct2, THEN conjunct2, THEN conjunct2, THEN conjunct2]
  note tail = rest [THEN conjunct2, THEN conjunct2, THEN conjunct2, THEN conjunct2,
    THEN conjunct2]
  from t [THEN conjunct1] t [THEN conjunct2, THEN conjunct1]
  have st: "stride (patch_embedding grid_embeddings) = 2" by (simp add: cfg)
  have ne: "(0::nat, 0::nat) \<noteq> (0, 1)" by simp
  note dj = rest [THEN conjunct1, rule_format, OF ne]
  have p1: "(0::nat) < 1" by simp
  have p2: "(0::nat) < nat (hidden_size grid_config)" by (simp add: cfg)
  have p3: "(0::nat) < 4 div nat (patch_size grid_config)" by (simp add: cfg)
  have pn: "(0::nat) < (4 div nat (patch_size grid_config)) * (4 div nat (patch_size grid_config))"
    by (simp add: cfg)
  have sp': "same_patch grid_embeddings 0 1 grid_image grid_image_changed
      (0 div (4 div nat (patch_size grid_config))) (0 mod (4 div nat (patch_size grid_config)))"
    using sp by simp
  note conv = tail [THEN conjunct1, THEN mp, OF conjI [OF s1 c1], THEN conjunct2, rule_format,
    OF p1 p2 p3 p3]
  note ce = conv [THEN conjunct2, THEN conjunct2, THEN mp, OF conjI [OF s2 conjI [OF c2 sp]]]
  note fwd = tail [THEN conjunct2, THEN mp, OF conjI [OF s1 f1], THEN conjunct2, THEN mp,
    OF conjI [OF np conjI [OF s2 f2]], rule_format, OF p1 pn p2 sp']
  note re = fwd
  from h st dj c1 c2 f1 f2 sp ce re show ?thesis by (intro conjI)
qed

text \<open>
  C7, as stated, fails when the table has a single position and the image has more
  patches than the configuration foresees: adding broadcasts the one row over the
  patches. For the configuration \<open>one_patch_config\<close> and an image of two patches, the
  value at patch position 1 is the patch embedding 21 plus row 0 of the table, while
  looking up position 1 in the table raises.
\<close>

theorem SiglipVisionEmbeddings_forward_broadcasts_single_position:
  "SiglipVisionEmbeddings_init example_nn one_patch_config = Inr one_patch_embeddings \<and>
   sequential [Conv2d_forward (patch_embedding one_patch_embeddings), flatten 2,
               transpose_dims 1 2] wide_image =
     Inr \<lparr>shape = [1, 2, 1], data = [11, 21]\<rparr> \<and>
   SiglipVisionEmbeddings_forward one_patch_embeddings wide_image =
     Inr \<lparr>shape = [1, 2, 1], data = [12, 22]\<rparr> \<and>
   Embedding_forward (position_embedding one_patch_embeddings) \<lparr>shape = [1], data = [0]\<rparr> =
     Inr \<lparr>shape = [1, 1], data = [1]\<rparr> \<and>
   Embedding_forward (position_embedding one_patch_embeddings) \<lparr>shape = [1], data = [1]\<rparr> =
     Inl (IndexError ''index out of range in self'')"
  by code_simp

text \<open>
  C7, amended. Take an instance that the constructor of \<^verbatim>\<open>SiglipVisionEmbeddings\<close> built
  and a batch of images whose number of patches,
  \<open>(height div patch_size) * (width div patch_size)\<close>, is the instance's number of
  positions. Whenever \<^verbatim>\<open>forward\<close> returns, the convolution returned a grid of that many
  patches, and the result has the shape of the flattened and transposed convolution
  output \<open>x\<close>, whose patch \<open>i\<close> is the grid's patch in row-major order; the element
  at batch \<open>b\<close>, patch \<open>i\<close> and feature \<open>e\<close> is that of \<open>x\<close> plus element \<open>e\<close> of row
  \<open>i\<close> of the position table, which does not depend on \<open>b\<close>.
\<close>

theorem SiglipVisionEmbeddings_forward_adds_position:
  assumes init: "SiglipVisionEmbeddings_init nn config = Inr self"
    and shp: "shape pixel_values = [B, C, H, W]"
    and fwd: "SiglipVisionEmbeddings_forward self pixel_values = Inr r"
    and np: "int ((H div nat (patch_size config)) * (W div nat (patch_size config))) =
               num_positions self"
  shows "\<exists>c fl x.
      Conv2d_forward (patch_embedding self) pixel_values = Inr c \<and>
      shape c = [B, nat (hidden_size config), H div nat (patch_size config),
                 W div nat (patch_size config)] \<and>
      flatten 2 c = Inr fl \<and> transpose_dims 1 2 fl = Inr x \<and>
      shape x = [B, nat (num_positions self), nat (hidden_size config)] \<and>
      shape r = shape x \<and>
      (\<forall>b<B. \<forall>i<nat (num_positions self). \<forall>e<nat (hidden_size config).
         tget x [b, i, e] =
           tget c [b, e, i div (W div nat (patch_size config)),
                   i mod (W div nat (patch_size config))] \<and>
         tget r [b, i, e] =
           tget x [b, i, e] + tget (weight (position_embedding self)) [i, e])"
  using assms by (rule embeddings_forward_elements)

theorem SiglipVisionEmbeddings_forward_adds_position_witness:
  "SiglipVisionEmbeddings_init example_nn small_config = Inr small_embeddings \<and>
   shape small_image = [1, 1, 2, 2] \<and>
   SiglipVisionEmbeddings_forward small_embeddings small_image =
     Inr \<lparr>shape = [1, 4, 2], data = [12, 24, 24, 46, 36, 68, 48, 90]\<rparr> \<and>
   int ((2 div nat (patch_size small_config)) * (2 div nat (patch_size small_config))) =
     num_positions small_embeddings \<and>
   (\<exists>c fl x.
      Conv2d_forward (patch_embedding small_embeddings) small_image = Inr c \<and>
      shape c = [1, nat (hidden_size small_config), 2 div nat (patch_size small_config),
                 2 div nat (patch_size small_config)] \<and>
      flatten 2 c = Inr fl \<and> transpose_dims 1 2 fl = Inr x \<and>
      shape x = [1, nat (num_positions small_embeddings), nat (hidden_size small_config)] \<and>
      shape \<lparr>shape = [1, 4, 2], data = [12, 24, 24, 46, 36, 68, 48, 90 :: real]\<rparr> = shape x \<and>
      (\<forall>b<1. \<forall>i<nat (num_positions small_embeddings). \<forall>e<nat (hidden_size small_config).
         tget x [b, i, e] =
           tget c [b, e, i div (2 div nat (patch_size small_config)),
                   i mod (2 div nat (patch_size small_config))] \<and>
         tget \<lparr>shape = [1, 4, 2], data = [12, 24, 24, 46, 36, 68, 48, 90]\<rparr> [b, i, e] =
           tget x [b, i, e] + tget (weight (position_embedding small_embeddings)) [i, e]))"
proof -
  have h1: "SiglipVisionEmbeddings_init example_nn small_config = Inr small_embeddings"
    by code_simp
  have h2: "shape small_image = [1, 1, 2, 2]"
    by (simp add: small_image_def)
  have h3: "SiglipVisionEmbeddings_forward small_embeddings small_image =
     Inr \<lparr>shape = [1, 4, 2], data = [12, 24, 24, 46, 36, 68, 48, 90]\<rparr>"
    by code_simp
  have h4: "int ((2 div nat (patch_size small_config)) * (2 div nat (patch_size small_config))) =
     num_positions small_embeddings"
    by (simp add: small_config_def small_embeddings_def)
  note t = SiglipVisionEmbeddings_forward_adds_position [OF h1 h2 h3 h4]
  show ?thesis by (rule conjI h1 h2 h3 h4 t)+
qed

text \<open>
  C10. In every instance that the constructor of \<^verbatim>\<open>SiglipVisionEmbeddings\<close> builds,
  \<open>num_positions\<close> and \<open>num_patches\<close> are both \<open>(image_size div patch_size)\<^sup>2\<close>, with a
  patch size that is not 0; the buffer \<open>position_ids\<close> has shape \<open>(1, num_positions)\<close>
  and holds \<open>0, ..., num_positions - 1\<close>; the table has \<open>num_positions\<close> rows, so
  every index of the buffer is in its range and looking the buffer up returns.
\<close>

theorem SiglipVisionEmbeddings_position_ids_in_range:
  assumes "SiglipVisionEmbeddings_init nn config = Inr self"
  shows "patch_size config \<noteq> 0 \<and>
    num_positions self = num_patches self \<and>
    num_patches self = (image_size config div patch_size config) ^ 2 \<and>
    0 \<le> num_positions self \<and>
    position_ids self =
      \<lparr>shape = [1, nat (num_positions self)], data = map int [0..<nat (num_positions self)]\<rparr> \<and>
    num_embeddings (position_embedding self) = num_positions self \<and>
    list_all (\<lambda>i. 0 \<le> i \<and> i < num_embeddings (position_embedding self))
      (data (position_ids self)) \<and>
    (\<exists>positions. Embedding_forward (position_embedding self) (position_ids self) = Inr positions)"
proof -
  note f = SiglipVisionEmbeddings_init_Inr [OF assms]
  from f have self:
    "num_positions self = (image_size config div patch_size config) ^ 2"
    "num_patches self = (image_size config div patch_size config) ^ 2"
    "num_embeddings (position_embedding self) = (image_size config div patch_size config) ^ 2"
    "position_ids self = \<lparr>shape = [1, nat ((image_size config div patch_size config) ^ 2)],
           data = map int [0..<nat ((image_size config div patch_size config) ^ 2)]\<rparr>"
    by simp_all
  have r: "list_all (\<lambda>i. 0 \<le> i \<and> i < num_embeddings (position_embedding self))
      (data (position_ids self))"
    by (auto simp add: self list_all_iff)
  then have "\<exists>positions. Embedding_forward (position_embedding self) (position_ids self) = Inr positions"
    by (simp add: Embedding_forward_def)
  with r f self show ?thesis by simp
qed

theorem SiglipVisionEmbeddings_position_ids_in_range_witness:
  "SiglipVisionEmbeddings_init example_nn small_config = Inr small_embeddings \<and>
   num_positions small_embeddings = 4 \<and> num_patches small_embeddings = 4 \<and>
   position_ids small_embeddings = \<lparr>shape = [1, 4], data = [0, 1, 2, 3]\<rparr> \<and>
   (\<exists>positions. Embedding_forward (position_embedding small_embeddings)
                   (position_ids small_embeddings) = Inr positions)"
proof -
  have h: "SiglipVisionEmbeddings_init example_nn small_config = Inr small_embeddings"
    by code_simp
  note t = SiglipVisionEmbeddings_position_ids_in_range [OF h]
  from t have e: "\<exists>positions. Embedding_forward (position_embedding small_embeddings)
                   (position_ids small_embeddings) = Inr positions"
    by blast
  from t have "num_positions small_embeddings = num_patches small_embeddings"
    and "num_patches small_embeddings = (image_size small_config div patch_size small_config) ^ 2"
    and "position_ids small_embeddings =
      \<lparr>shape = [1, nat (num_positions small_embeddings)],
       data = map int [0..<nat (num_positions small_embeddings)]\<rparr>"
    by blast+
  then have "num_positions small_embeddings = 4" "num_patches small_embeddings = 4"
    "position_ids small_embeddings = \<lparr>shape = [1, 4], data = [0, 1, 2, 3]\<rparr>"
    by (simp_all add: small_config_def small_embeddings_def)
  with h e show ?thesis by blast
qed

end
